theory Spec2Isabelle
  imports Complex_Main "HOL-Library.Multiset"
begin

section \<open>Python data as the price checker uses it\<close>

text \<open>
  The embedding follows \<^verbatim>\<open>price-checker-api.py\<close>.  Conventions:
  \<^item> a Python \<^verbatim>\<open>str\<close> is a \<open>string\<close>; one \<open>char\<close> stands for one code point
    below 256 (ASCII and Latin-1, which holds the accented letters the source names);
    code points from 256 on are outside the model;
  \<^item> a Python \<^verbatim>\<open>float\<close> is a \<open>real\<close>: comparisons are exact as in the source,
    rounding, overflow, infinities and NaN are outside the model;
  \<^item> an exception is a value of \<open>py_error\<close>, and a function that can raise returns
    \<open>py_error + 'a\<close>;
  \<^item> a \<^verbatim>\<open>dict\<close> is an association list in insertion order with one pair per key.
\<close>

datatype py_error = AttributeError | TypeError | ValueError | KeyError | IndexError

datatype pyval =
    PNone
  | PBool bool
  | PInt int
  | PFloat real
  | PStr string
  | PList "pyval list"
  | PDict "(string \<times> pyval) list"

text \<open>Truth value of an object (\<^verbatim>\<open>if x:\<close>, \<^verbatim>\<open>not x\<close>, \<^verbatim>\<open>a and b\<close>, \<^verbatim>\<open>a or b\<close>).\<close>

fun truthy :: "pyval \<Rightarrow> bool" where
  "truthy PNone = False"
| "truthy (PBool b) = b"
| "truthy (PInt i) = (i \<noteq> 0)"
| "truthy (PFloat r) = (r \<noteq> 0)"
| "truthy (PStr s) = (s \<noteq> [])"
| "truthy (PList xs) = (xs \<noteq> [])"
| "truthy (PDict kvs) = (kvs \<noteq> [])"

subsection \<open>Characters and strings\<close>

definition code_point :: "char \<Rightarrow> int" where
  "code_point c = of_char c"

definition is_digit :: "char \<Rightarrow> bool" where
  "is_digit c = (48 \<le> code_point c \<and> code_point c \<le> 57)"

definition is_ascii_upper :: "char \<Rightarrow> bool" where
  "is_ascii_upper c = (65 \<le> code_point c \<and> code_point c \<le> 90)"

definition is_ascii_lower :: "char \<Rightarrow> bool" where
  "is_ascii_lower c = (97 \<le> code_point c \<and> code_point c \<le> 122)"

text \<open>
  Latin-1 letters: upper case is 0xC0..0xDE without the multiplication sign 0xD7, lower
  case is 0xDF..0xFF without the division sign 0xF7; 0xDF and 0xFF have no upper case
  below 256.
\<close>

definition is_latin_upper :: "char \<Rightarrow> bool" where
  "is_latin_upper c = (192 \<le> code_point c \<and> code_point c \<le> 222 \<and> code_point c \<noteq> 215)"

definition is_latin_lower :: "char \<Rightarrow> bool" where
  "is_latin_lower c = (223 \<le> code_point c \<and> code_point c \<le> 255 \<and> code_point c \<noteq> 247)"

definition lower_char :: "char \<Rightarrow> char" where
  "lower_char c =
     (if is_ascii_upper c \<or> is_latin_upper c then char_of (code_point c + 32) else c)"

definition upper_char :: "char \<Rightarrow> char" where
  "upper_char c =
     (if is_ascii_lower c \<or> (224 \<le> code_point c \<and> code_point c \<le> 254 \<and> code_point c \<noteq> 247)
      then char_of (code_point c - 32) else c)"

text \<open>\<^verbatim>\<open>s.lower()\<close>\<close>

definition lower :: "string \<Rightarrow> string" where
  "lower s = map lower_char s"

text \<open>\<^verbatim>\<open>sub in s\<close> on strings: \<open>sub\<close> occurs as a contiguous piece of \<open>s\<close>.\<close>

fun starts_with :: "string \<Rightarrow> string \<Rightarrow> bool" where
  "starts_with [] s = True"
| "starts_with (p # ps) [] = False"
| "starts_with (p # ps) (c # cs) = (p = c \<and> starts_with ps cs)"

fun str_in :: "string \<Rightarrow> string \<Rightarrow> bool" where
  "str_in sub [] = (sub = [])"
| "str_in sub (c # cs) = (starts_with sub (c # cs) \<or> str_in sub cs)"

text \<open>White space as \<^verbatim>\<open>str.strip\<close>, \<^verbatim>\<open>float\<close> and the pattern \<^verbatim>\<open>\s\<close> read it.\<close>

definition is_space :: "char \<Rightarrow> bool" where
  "is_space c =
     (let n = code_point c in
      n = 32 \<or> (9 \<le> n \<and> n \<le> 13) \<or> (28 \<le> n \<and> n \<le> 31) \<or> n = 133 \<or> n = 160)"

definition strip :: "string \<Rightarrow> string" where
  "strip s = rev (dropWhile is_space (rev (dropWhile is_space s)))"

subsection \<open>The builtin float\<close>

definition digit_val :: "char \<Rightarrow> int" where
  "digit_val c = code_point c - 48"

definition digits_val :: "string \<Rightarrow> int" where
  "digits_val ds = foldl (\<lambda>n c. 10 * n + digit_val c) 0 ds"

text \<open>
  \<^verbatim>\<open>digitpart ::= digit (["_"] digit)*\<close>: the digits read (underscores dropped)
  and the rest of the input; \<open>None\<close> when the input does not start with a digit.
\<close>

fun digitpart_tail :: "string \<Rightarrow> string \<times> string" where
  "digitpart_tail (c # d # cs) =
     (if is_digit c then (let (ds, r) = digitpart_tail (d # cs) in (c # ds, r))
      else if c = CHR ''_'' \<and> is_digit d then digitpart_tail (d # cs)
      else ([], c # d # cs))"
| "digitpart_tail [c] = (if is_digit c then ([c], []) else ([], [c]))"
| "digitpart_tail [] = ([], [])"

definition digitpart :: "string \<Rightarrow> (string \<times> string) option" where
  "digitpart s =
     (case s of [] \<Rightarrow> None
      | c # cs \<Rightarrow> if is_digit c then Some (digitpart_tail s) else None)"

definition skip_sign :: "string \<Rightarrow> bool \<times> string" where
  "skip_sign s =
     (case s of [] \<Rightarrow> (False, [])
      | c # cs \<Rightarrow> if c = CHR ''-'' then (True, cs)
                 else if c = CHR ''+'' then (False, cs) else (False, s))"

text \<open>
  \<^verbatim>\<open>number ::= [digitpart] "." digitpart | digitpart ["."]\<close>: the value and the rest.
\<close>

definition float_number :: "string \<Rightarrow> (real \<times> string) option" where
  "float_number s =
     (case digitpart s of
        Some (ip, r) \<Rightarrow>
          (case r of
             [] \<Rightarrow> Some (real_of_int (digits_val ip), [])
           | c # r' \<Rightarrow>
               if c = CHR ''.'' then
                 (case digitpart r' of
                    Some (fp, r'') \<Rightarrow>
                      Some (real_of_int (digits_val ip) + real_of_int (digits_val fp) / 10 ^ length fp, r'')
                  | None \<Rightarrow> Some (real_of_int (digits_val ip), r'))
               else Some (real_of_int (digits_val ip), r))
      | None \<Rightarrow>
          (case s of
             [] \<Rightarrow> None
           | c # r' \<Rightarrow>
               if c = CHR ''.'' then
                 (case digitpart r' of
                    Some (fp, r'') \<Rightarrow> Some (real_of_int (digits_val fp) / 10 ^ length fp, r'')
                  | None \<Rightarrow> None)
               else None))"

text \<open>\<^verbatim>\<open>exponent ::= ("e" | "E") [sign] digitpart\<close>: the factor; nothing may follow it.\<close>

definition float_exponent :: "string \<Rightarrow> real option" where
  "float_exponent s =
     (case s of
        [] \<Rightarrow> Some 1
      | c # r \<Rightarrow>
          if c = CHR ''e'' \<or> c = CHR ''E'' then
            (let (neg, r') = skip_sign r in
             case digitpart r' of
               Some (ds, []) \<Rightarrow> Some (if neg then 1 / 10 ^ nat (digits_val ds) else 10 ^ nat (digits_val ds))
             | _ \<Rightarrow> None)
          else None)"

text \<open>
  \<^verbatim>\<open>float(s)\<close> for a string: surrounding white space is dropped, then a signed
  decimal literal is read; anything else raises ValueError.  The texts that denote an
  infinity or NaN have no real value and are refused here as well.
\<close>

definition float_of_str :: "string \<Rightarrow> py_error + real" where
  "float_of_str s =
     (let (neg, r) = skip_sign (strip s) in
      case float_number r of
        None \<Rightarrow> Inl ValueError
      | Some (m, r') \<Rightarrow>
          (case float_exponent r' of
             None \<Rightarrow> Inl ValueError
           | Some e \<Rightarrow> Inr ((if neg then - 1 else 1) * m * e)))"

text \<open>\<^verbatim>\<open>float(x)\<close> for any object: containers and None raise TypeError.\<close>

fun py_float :: "pyval \<Rightarrow> py_error + real" where
  "py_float (PStr s) = float_of_str s"
| "py_float (PInt i) = Inr (real_of_int i)"
| "py_float (PFloat r) = Inr r"
| "py_float (PBool b) = Inr (if b then 1 else 0)"
| "py_float PNone = Inl TypeError"
| "py_float (PList xs) = Inl TypeError"
| "py_float (PDict kvs) = Inl TypeError"

subsection \<open>Dictionaries\<close>

text \<open>\<^verbatim>\<open>d.get(k)\<close> is \<open>map_of d k\<close>; \<^verbatim>\<open>d[k] = v\<close> keeps the position of a key already there.\<close>

fun dict_set :: "'k \<Rightarrow> 'v \<Rightarrow> ('k \<times> 'v) list \<Rightarrow> ('k \<times> 'v) list" where
  "dict_set k v [] = [(k, v)]"
| "dict_set k v ((k', v') # d) =
     (if k' = k then (k, v) # d else (k', v') # dict_set k v d)"


section \<open>Consolidating prices per store\<close>

text \<open>
  One element of \<^verbatim>\<open>all_prices\<close>.  A field is \<open>None\<close> when the dictionary lacks the
  key.  The store, the URL and the source tag are strings and the estimated flag is a
  boolean wherever the file builds such a dictionary; the price is left an arbitrary
  object, since \<^verbatim>\<open>consolidate_prices\<close> itself tests its truth value and its type.
\<close>

record price_item =
  pi_store :: "string option"
  pi_price :: "pyval option"
  pi_estimated :: "bool option"
  pi_url :: "string option"
  pi_source_api :: "string option"

text \<open>One value of the dictionary \<^verbatim>\<open>stores\<close> that \<^verbatim>\<open>consolidate_prices\<close> returns.\<close>

record store_entry =
  se_store :: string
  se_price :: real
  se_url :: string
  se_source_api :: string
  se_estimated :: bool

text \<open>The chain of \<^verbatim>\<open>if 'amazon' in store_lower: ... elif ...\<close> that names the store.\<close>

definition store_key_of :: "string \<Rightarrow> string" where
  "store_key_of store =
     (let store_lower = lower store in
      if str_in ''amazon'' store_lower then ''Amazon Mexico''
      else if str_in ''walmart'' store_lower then ''Walmart Mexico''
      else if str_in ''mercado'' store_lower then ''Mercado Libre''
      else if str_in ''soriana'' store_lower then ''Soriana''
      else if str_in ''chedraui'' store_lower then ''Chedraui''
      else if str_in ''guadalajara'' store_lower then ''Farmacias Guadalajara''
      else if str_in ''ahorro'' store_lower then ''Farmacias del Ahorro''
      else if str_in ''benavides'' store_lower then ''Farmacias Benavides''
      else if str_in ''sam'' store_lower then ''Sam's Club''
      else if str_in ''costco'' store_lower then ''Costco''
      else if str_in ''heb'' store_lower then ''HEB''
      else if str_in ''liverpool'' store_lower then ''Liverpool''
      else if str_in ''coppel'' store_lower then ''Coppel''
      else if str_in ''lacomer'' store_lower \<or> str_in ''la comer'' store_lower then ''La Comer''
      else store)"

text \<open>
  The price as \<^verbatim>\<open>consolidate_prices\<close> converts it: \<^verbatim>\<open>re.sub(r'[^\d.]', '', price)\<close>
  keeps the digits and dots of a string, and the bare \<^verbatim>\<open>except\<close> turns every failure
  of \<^verbatim>\<open>float\<close> into \<open>None\<close> (the \<^verbatim>\<open>continue\<close>).
\<close>

definition digits_and_dots :: "string \<Rightarrow> string" where
  "digits_and_dots s = filter (\<lambda>c. is_digit c \<or> c = CHR ''.'') s"

definition price_to_float :: "pyval \<Rightarrow> real option" where
  "price_to_float price =
     (case (case price of PStr s \<Rightarrow> float_of_str (digits_and_dots s) | _ \<Rightarrow> py_float price) of
        Inl e \<Rightarrow> None
      | Inr p \<Rightarrow> Some p)"

text \<open>The fields read with \<^verbatim>\<open>price_item.get(key, default)\<close>.\<close>

definition item_store :: "price_item \<Rightarrow> string" where
  "item_store x = (case pi_store x of None \<Rightarrow> ''Desconocido'' | Some s \<Rightarrow> s)"

definition item_price :: "price_item \<Rightarrow> pyval" where
  "item_price x = (case pi_price x of None \<Rightarrow> PNone | Some v \<Rightarrow> v)"

definition item_estimated :: "price_item \<Rightarrow> bool" where
  "item_estimated x = (case pi_estimated x of None \<Rightarrow> False | Some b \<Rightarrow> b)"

definition item_url :: "price_item \<Rightarrow> string" where
  "item_url x = (case pi_url x of None \<Rightarrow> [] | Some s \<Rightarrow> s)"

definition item_source_api :: "price_item \<Rightarrow> string" where
  "item_source_api x = (case pi_source_api x of None \<Rightarrow> [] | Some s \<Rightarrow> s)"

text \<open>The body of the loop \<^verbatim>\<open>for price_item in all_prices\<close>, on the dictionary \<open>stores\<close>.\<close>

definition consolidate_step ::
  "(string \<times> store_entry) list \<Rightarrow> price_item \<Rightarrow> (string \<times> store_entry) list" where
  "consolidate_step stores x =
     (let store = item_store x; price = item_price x; is_estimated = item_estimated x in
      if \<not> truthy price then stores
      else
        let store_key = store_key_of store in
        case price_to_float price of
          None \<Rightarrow> stores
        | Some p \<Rightarrow>
            (case map_of stores store_key of
               None \<Rightarrow>
                 dict_set store_key
                   \<lparr>se_store = store_key, se_price = p, se_url = item_url x,
                    se_source_api = item_source_api x, se_estimated = is_estimated\<rparr> stores
             | Some existing \<Rightarrow>
                 if se_estimated existing \<and> \<not> is_estimated then
                   dict_set store_key
                     \<lparr>se_store = store_key, se_price = p, se_url = item_url x,
                      se_source_api = item_source_api x, se_estimated = False\<rparr> stores
                 else if se_estimated existing = is_estimated \<and> p < se_price existing then
                   dict_set store_key
                     \<lparr>se_store = store_key, se_price = p, se_url = item_url x,
                      se_source_api = item_source_api x, se_estimated = is_estimated\<rparr> stores
                 else stores))"

definition consolidate_prices :: "price_item list \<Rightarrow> (string \<times> store_entry) list" where
  "consolidate_prices all_prices = foldl consolidate_step [] all_prices"

subsection \<open>What an item contributes\<close>

text \<open>The canonical store an item is filed under.\<close>

definition item_key :: "price_item \<Rightarrow> string" where
  "item_key x = store_key_of (item_store x)"

text \<open>
  The number under which the loop considers an item: \<open>None\<close> when the item is skipped,
  by the test \<^verbatim>\<open>if not price: continue\<close> or by a failed conversion.
\<close>

definition item_value :: "price_item \<Rightarrow> real option" where
  "item_value x = (if truthy (item_price x) then price_to_float (item_price x) else None)"

text \<open>The dictionary the loop stores for item \<open>x\<close> converted to price \<open>p\<close>.\<close>

definition entry_of :: "price_item \<Rightarrow> real \<Rightarrow> store_entry" where
  "entry_of x p =
     \<lparr>se_store = item_key x, se_price = p, se_url = item_url x,
      se_source_api = item_source_api x, se_estimated = item_estimated x\<rparr>"

text \<open>
  Entry \<open>e\<close> already accounts for item \<open>z\<close>: a verified \<open>z\<close> means \<open>e\<close> is verified, and
  \<open>e\<close> is no dearer than a \<open>z\<close> of its own class.
\<close>

definition covers :: "store_entry \<Rightarrow> price_item \<Rightarrow> bool" where
  "covers e z =
     (case item_value z of
        None \<Rightarrow> True
      | Some q \<Rightarrow> (se_estimated e \<longrightarrow> item_estimated z)
                 \<and> (item_estimated z = se_estimated e \<longrightarrow> se_price e \<le> q))"

text \<open>The loop invariant: what the dictionary holds under key \<open>k\<close> after the items \<open>xs\<close>.\<close>

definition summarises :: "price_item list \<Rightarrow> string \<Rightarrow> store_entry option \<Rightarrow> bool" where
  "summarises xs k r =
     (case r of
        None \<Rightarrow> (\<forall>z \<in> set xs. item_key z = k \<longrightarrow> item_value z = None)
      | Some e \<Rightarrow>
          (\<exists>y \<in> set xs. item_key y = k \<and> item_value y = Some (se_price e)
                        \<and> e = entry_of y (se_price e))
          \<and> (\<forall>z \<in> set xs. item_key z = k \<longrightarrow> covers e z))"

text \<open>
  The part of an entry that the order of the input cannot change: the store, the price
  and the estimated flag (the URL and the source tag are those of whichever item came
  first among equals).
\<close>

definition same_offer :: "store_entry \<Rightarrow> store_entry \<Rightarrow> bool" where
  "same_offer e e' =
     (se_store e = se_store e' \<and> se_price e = se_price e' \<and> se_estimated e = se_estimated e')"

subsection \<open>Sample items\<close>

text \<open>An item as the scrapers and estimators build it.\<close>

definition offer :: "string \<Rightarrow> pyval \<Rightarrow> bool \<Rightarrow> string \<Rightarrow> price_item" where
  "offer store price estimated url =
     \<lparr>pi_store = Some store, pi_price = Some price, pi_estimated = Some estimated,
      pi_url = Some url, pi_source_api = Some ''oxylabs''\<rparr>"

definition verified30 :: price_item where
  "verified30 = offer ''Walmart'' (PFloat 30) False ''https://www.walmart.com.mx/ip/1''"

definition estimated10 :: price_item where
  "estimated10 = offer ''Walmart Mexico'' (PFloat 10) True []"

definition verified45 :: price_item where
  "verified45 = offer ''Soriana'' (PFloat 45) False ''https://www.soriana.com/a''"

definition verified38 :: price_item where
  "verified38 = offer ''Soriana'' (PFloat 38) False ''https://www.soriana.com/b''"

definition verified_unpriced :: price_item where
  "verified_unpriced = offer ''Walmart'' (PInt 0) False ''https://www.walmart.com.mx/ip/2''"

definition tie_first :: price_item where
  "tie_first = offer ''Chedraui'' (PFloat 10) False ''https://www.chedraui.com.mx/a''"

definition tie_second :: price_item where
  "tie_second = offer ''Chedraui'' (PFloat 10) False ''https://www.chedraui.com.mx/b''"

definition verified3 :: price_item where
  "verified3 = offer ''HEB'' (PFloat 3) False ''https://www.heb.com.mx/a''"

definition verified_million :: price_item where
  "verified_million = offer ''Costco'' (PInt 1000000) False ''https://www.costco.com.mx/a''"

definition zero_text :: price_item where
  "zero_text = offer ''Walmart'' (PStr ''0'') False ''https://www.walmart.com.mx/ip/3''"

section \<open>Regular expressions\<close>

text \<open>
  The patterns of the source, as trees.  Matching follows the backtracking matcher of
  \<^verbatim>\<open>re\<close>: from a state, a pattern yields the states after each way it can match, in
  the order the matcher would try them (a greedy repetition tries more first, a lazy one
  less first), so the head of the list is the match \<^verbatim>\<open>re\<close> returns.
\<close>

datatype char_item = CChar char | CRange char char | CDigit | CSpace | CNotSpace

datatype regex =
    Lit string
  | Cls bool "char_item list"
  | WordBoundary
  | Seq "regex list"
  | Alt "regex list"
  | Rep regex nat "nat option" bool
  | Group regex

text \<open>
  \<open>Lit s\<close> is literal text; \<open>Cls negated items\<close> a class \<^verbatim>\<open>[...]\<close> or \<^verbatim>\<open>[^...]\<close>;
  \<open>WordBoundary\<close> is \<^verbatim>\<open>\b\<close>; \<open>Rep r lo hi greedy\<close> is \<^verbatim>\<open>r{lo,hi}\<close> (\<open>hi = None\<close>: no
  upper limit; \<open>greedy = False\<close>: the lazy form \<^verbatim>\<open>r{lo,hi}?\<close>); \<open>Group r\<close> captures.
\<close>

abbreviation Digit :: regex where "Digit \<equiv> Cls False [CDigit]"
abbreviation Space :: regex where "Space \<equiv> Cls False [CSpace]"
abbreviation AnyChar :: regex where "AnyChar \<equiv> Cls False [CSpace, CNotSpace]"
abbreviation Not_char :: "char \<Rightarrow> regex" where "Not_char c \<equiv> Cls True [CChar c]"
abbreviation Many :: "regex \<Rightarrow> regex" where "Many r \<equiv> Rep r 0 None True"
abbreviation Many1 :: "regex \<Rightarrow> regex" where "Many1 r \<equiv> Rep r 1 None True"
abbreviation Maybe :: "regex \<Rightarrow> regex" where "Maybe r \<equiv> Rep r 0 (Some 1) True"
abbreviation Many_lazy :: "regex \<Rightarrow> regex" where "Many_lazy r \<equiv> Rep r 0 None False"

text \<open>\<^verbatim>\<open>\w\<close> on code points below 256: letters, digits, numeric signs and the underscore.\<close>

definition is_word_char :: "char \<Rightarrow> bool" where
  "is_word_char c =
     (let n = code_point c in
      is_digit c \<or> is_ascii_upper c \<or> is_ascii_lower c \<or> n = 95
      \<or> n = 170 \<or> n = 178 \<or> n = 179 \<or> n = 181 \<or> n = 185 \<or> n = 186
      \<or> (188 \<le> n \<and> n \<le> 190) \<or> is_latin_upper c \<or> is_latin_lower c)"

fun item_has :: "char_item \<Rightarrow> char \<Rightarrow> bool" where
  "item_has (CChar d) c = (c = d)"
| "item_has (CRange lo hi) c = (code_point lo \<le> code_point c \<and> code_point c \<le> code_point hi)"
| "item_has CDigit c = is_digit c"
| "item_has CSpace c = is_space c"
| "item_has CNotSpace c = (\<not> is_space c)"

text \<open>Under \<^verbatim>\<open>re.IGNORECASE\<close> (\<open>ic\<close>) a character also matches through its other case.\<close>

definition class_has :: "bool \<Rightarrow> char_item list \<Rightarrow> char \<Rightarrow> bool" where
  "class_has ic items c =
     (list_ex (\<lambda>i. item_has i c) items
      \<or> (ic \<and> list_ex (\<lambda>i. item_has i (lower_char c) \<or> item_has i (upper_char c)) items))"

definition char_eq :: "bool \<Rightarrow> char \<Rightarrow> char \<Rightarrow> bool" where
  "char_eq ic a b = (if ic then lower_char a = lower_char b else a = b)"

text \<open>
  A matcher state: the input still to read, the character just before it (for \<^verbatim>\<open>\b\<close>)
  and the groups captured so far.
\<close>

type_synonym mstate = "string \<times> char option \<times> string list"

fun match_lit :: "bool \<Rightarrow> string \<Rightarrow> mstate \<Rightarrow> mstate list" where
  "match_lit ic [] st = [st]"
| "match_lit ic (p # ps) ([], prev, gs) = []"
| "match_lit ic (p # ps) (c # cs, prev, gs) =
     (if char_eq ic p c then match_lit ic ps (cs, Some c, gs) else [])"

definition at_word_boundary :: "mstate \<Rightarrow> bool" where
  "at_word_boundary st =
     (case st of (rest, prev, gs) \<Rightarrow>
        (case prev of None \<Rightarrow> False | Some p \<Rightarrow> is_word_char p)
        \<noteq> (case rest of [] \<Rightarrow> False | c # cs \<Rightarrow> is_word_char c))"

fun seq_match :: "(mstate \<Rightarrow> mstate list) list \<Rightarrow> mstate \<Rightarrow> mstate list" where
  "seq_match [] st = [st]"
| "seq_match (m # ms) st = concat (map (seq_match ms) (m st))"

text \<open>
  Repetition.  A round that reads nothing ends the repetition, as in \<^verbatim>\<open>re\<close>; every other
  round shortens the input, so one unit of fuel per character of input is never used up.
\<close>

fun rep_match ::
  "(mstate \<Rightarrow> mstate list) \<Rightarrow> nat \<Rightarrow> nat option \<Rightarrow> bool \<Rightarrow> nat \<Rightarrow> mstate \<Rightarrow> mstate list" where
  "rep_match m lo hi greedy 0 st = (if lo = 0 then [st] else [])"
| "rep_match m lo hi greedy (Suc fuel) st =
     (let more = (if hi = Some 0 then []
                  else concat (map (\<lambda>st'. if fst st' = fst st then []
                                           else rep_match m (lo - 1) (map_option (\<lambda>h. h - 1) hi)
                                                  greedy fuel st')
                                  (m st)));
          stop = (if lo = 0 then [st] else [])
      in if greedy then more @ stop else stop @ more)"

primrec rmatch :: "bool \<Rightarrow> regex \<Rightarrow> mstate \<Rightarrow> mstate list" where
  "rmatch ic (Lit s) = match_lit ic s"
| "rmatch ic (Cls negated items) =
     (\<lambda>st. case st of
        ([], prev, gs) \<Rightarrow> []
      | (c # cs, prev, gs) \<Rightarrow>
          if class_has ic items c \<noteq> negated then [(cs, Some c, gs)] else [])"
| "rmatch ic WordBoundary = (\<lambda>st. if at_word_boundary st then [st] else [])"
| "rmatch ic (Seq rs) = seq_match (map (rmatch ic) rs)"
| "rmatch ic (Alt rs) = (\<lambda>st. concat (map (\<lambda>m. m st) (map (rmatch ic) rs)))"
| "rmatch ic (Rep r lo hi greedy) =
     (\<lambda>st. rep_match (rmatch ic r) lo hi greedy (Suc (length (fst st))) st)"
| "rmatch ic (Group r) =
     (\<lambda>st. map (\<lambda>(rest', prev', gs').
                  (rest', prev', gs' @ [take (length (fst st) - length rest') (fst st)]))
              (rmatch ic r st))"

text \<open>
  The leftmost match at or after the current position: the input from where the match
  starts, and the state after it.
\<close>

fun re_search_from ::
  "bool \<Rightarrow> regex \<Rightarrow> string \<Rightarrow> char option \<Rightarrow> (string \<times> mstate) option" where
  "re_search_from ic r [] prev =
     (case rmatch ic r ([], prev, []) of [] \<Rightarrow> None | st # sts \<Rightarrow> Some ([], st))"
| "re_search_from ic r (c # cs) prev =
     (case rmatch ic r (c # cs, prev, []) of
        [] \<Rightarrow> re_search_from ic r cs (Some c)
      | st # sts \<Rightarrow> Some (c # cs, st))"

text \<open>\<^verbatim>\<open>re.search(pattern, s)\<close>: the matched text and the groups, or \<open>None\<close>.\<close>

definition re_search :: "bool \<Rightarrow> regex \<Rightarrow> string \<Rightarrow> (string \<times> string list) option" where
  "re_search ic r s =
     (case re_search_from ic r s None of
        None \<Rightarrow> None
      | Some (start, rest, prev, gs) \<Rightarrow> Some (take (length start - length rest) start, gs))"

text \<open>
  \<^verbatim>\<open>re.findall(pattern, s)\<close>: the matches from left to right, none overlapping, each as
  its text and its groups.  Each round moves on by a character at least, so the fuel of
  \<open>re_findall\<close> is never used up.
\<close>

fun re_findall_from ::
  "nat \<Rightarrow> bool \<Rightarrow> regex \<Rightarrow> string \<Rightarrow> char option \<Rightarrow> (string \<times> string list) list" where
  "re_findall_from 0 ic r s prev = []"
| "re_findall_from (Suc fuel) ic r s prev =
     (case re_search_from ic r s prev of
        None \<Rightarrow> []
      | Some (start, rest, prev', gs) \<Rightarrow>
          (take (length start - length rest) start, gs)
          # (if length rest < length start then re_findall_from fuel ic r rest prev'
             else case rest of [] \<Rightarrow> [] | c # cs \<Rightarrow> re_findall_from fuel ic r cs (Some c)))"

definition re_findall :: "bool \<Rightarrow> regex \<Rightarrow> string \<Rightarrow> (string \<times> string list) list" where
  "re_findall ic r s = re_findall_from (Suc (length s)) ic r s None"

section \<open>Matching a found product against the search\<close>

definition stopwords :: "string list" where
  "stopwords =
     [''de'', ''la'', ''el'', ''los'', ''las'', ''un'', ''una'', ''con'', ''para'', ''por'',
      ''en'', ''ml'', ''gr'', ''kg'', ''lt'', ''pz'', ''pzas'']"

text \<open>
  \<^verbatim>\<open>\b[a-zA-Z...]+\b\<close> with the twelve accented letters of the source, which are the
  code points 0xE1, 0xE9, 0xED, 0xF3, 0xFA, 0xF1 and their capitals.
\<close>

definition word_pattern :: regex where
  "word_pattern =
     Seq [WordBoundary,
          Many1 (Cls False
            [CRange CHR ''a'' CHR ''z'', CRange CHR ''A'' CHR ''Z'',
             CChar (CHR 0xE1), CChar (CHR 0xE9), CChar (CHR 0xED), CChar (CHR 0xF3),
             CChar (CHR 0xFA), CChar (CHR 0xF1), CChar (CHR 0xC1), CChar (CHR 0xC9),
             CChar (CHR 0xCD), CChar (CHR 0xD3), CChar (CHR 0xDA), CChar (CHR 0xD1)]),
          WordBoundary]"

definition normalize_product_name :: "string \<Rightarrow> string list" where
  "normalize_product_name name =
     (if name = [] then []
      else let words = map fst (re_findall False word_pattern (lower name))
           in filter (\<lambda>w. w \<notin> set stopwords \<and> length w > 2) words)"

text \<open>
  \<^verbatim>\<open>calculate_product_match_score\<close>.  The source takes \<^verbatim>\<open>list(search_keywords)[0]\<close>
  of a \<^verbatim>\<open>set\<close> of strings; the order in which a set is listed is fixed by the hashes of
  its members, which the program does not control.  The parameter \<open>set_order\<close> is that
  order: it takes the keywords the set was built from and lists the set.
\<close>

definition calculate_product_match_score ::
  "(string list \<Rightarrow> string list) \<Rightarrow> string \<Rightarrow> string \<Rightarrow> real" where
  "calculate_product_match_score set_order search_name found_name =
     (if search_name = [] \<or> found_name = [] then 0
      else
        let search_keywords = set (normalize_product_name search_name);
            found_keywords = set (normalize_product_name found_name)
        in if search_keywords = {} then 1 / 2
           else
             let intersection = search_keywords \<inter> found_keywords;
                 union = search_keywords \<union> found_keywords
             in if union = {} then 0
                else
                  let jaccard = real (card intersection) / real (card union);
                      search_list = set_order (normalize_product_name search_name);
                      found_list = set_order (normalize_product_name found_name)
                  in if search_list \<noteq> [] \<and> found_list \<noteq> [] \<and> hd search_list \<in> found_keywords
                     then min 1 (jaccard + 2 / 10)
                     else jaccard)"

text \<open>The Jaccard similarity of two keyword sets, as the specification words it.\<close>

definition jaccard_similarity :: "string set \<Rightarrow> string set \<Rightarrow> real" where
  "jaccard_similarity A B = real (card (A \<inter> B)) / real (card (A \<union> B))"

text \<open>The fifteen patterns of \<^verbatim>\<open>is_multipack\<close>, in the order of the source.\<close>

definition multipack_patterns :: "regex list" where
  "multipack_patterns =
    [Seq [WordBoundary, Many1 Digit, Many Space, Lit ''pack'', WordBoundary],
     Seq [WordBoundary, Many1 Digit, Many Space, Lit ''pza'', Maybe (Lit ''s''), WordBoundary],
     Seq [WordBoundary, Many1 Digit, Many Space, Lit ''pieza'', Maybe (Lit ''s''), WordBoundary],
     Seq [WordBoundary, Many1 Digit, Many Space, Lit ''frasco'', Maybe (Lit ''s''), WordBoundary],
     Seq [WordBoundary, Many1 Digit, Many Space, Lit ''botella'', Maybe (Lit ''s''), WordBoundary],
     Seq [WordBoundary, Many1 Digit, Many Space, Lit ''unidade'', Maybe (Lit ''s''), WordBoundary],
     Seq [WordBoundary, Lit ''pack'', Many Space, Lit ''de'', Many Space, Many1 Digit, WordBoundary],
     Seq [WordBoundary, Lit ''paquete'', Many Space, Lit ''de'', Many Space, Many1 Digit,
          WordBoundary],
     Seq [WordBoundary, Lit ''x'', Many Space, Many1 Digit, WordBoundary],
     Seq [Lit ''('', Many1 Digit, Many Space, Lit ''pza'', Maybe (Lit ''s''), Lit '')''],
     Seq [Lit ''('', Many1 Digit, Many Space, Lit ''pack)''],
     Seq [Lit ''('', Many1 Digit, Many Space, Lit ''frasco'', Maybe (Lit ''s''), Lit '')''],
     Seq [WordBoundary, Lit ''12'', Many Space, Lit ''frascos'', WordBoundary],
     Seq [WordBoundary, Lit ''6'', Many Space, Lit ''pzas'', WordBoundary],
     Seq [WordBoundary, Lit ''6'', Many Space, Lit ''pack'', WordBoundary]]"

definition is_multipack :: "string \<Rightarrow> bool" where
  "is_multipack title =
     (let title_lower = lower title in
      list_ex (\<lambda>pattern. re_search False pattern title_lower \<noteq> None) multipack_patterns)"

section \<open>The module json\<close>

text \<open>
  \<^verbatim>\<open>json.loads\<close> on a string, with \<open>None\<close> for a JSONDecodeError.  Objects keep
  the order of their keys, a key given twice keeps its first place and its last value, a
  number without fraction and exponent is an int.  Outside the model, and refused here:
  the literals NaN and Infinity, and an escape \<^verbatim>\<open>\uXXXX\<close> of a code point from 256 on.
\<close>

text \<open>White space between the tokens of a document.\<close>

definition json_ws :: "char \<Rightarrow> bool" where
  "json_ws c = (let n = code_point c in n = 32 \<or> n = 9 \<or> n = 10 \<or> n = 13)"

definition skip_ws :: "string \<Rightarrow> string" where
  "skip_ws s = dropWhile json_ws s"

text \<open>The four hexadecimal digits of an escape \<^verbatim>\<open>\uXXXX\<close>.\<close>

definition hex_val :: "char \<Rightarrow> int option" where
  "hex_val c =
     (let n = code_point c in
      if is_digit c then Some (n - 48)
      else if 97 \<le> n \<and> n \<le> 102 then Some (n - 87)
      else if 65 \<le> n \<and> n \<le> 70 then Some (n - 55)
      else None)"

definition hex4 :: "char \<Rightarrow> char \<Rightarrow> char \<Rightarrow> char \<Rightarrow> int option" where
  "hex4 a b c d =
     (case (hex_val a, hex_val b, hex_val c, hex_val d) of
        (Some w, Some x, Some y, Some z) \<Rightarrow> Some (((w * 16 + x) * 16 + y) * 16 + z)
      | _ \<Rightarrow> None)"

text \<open>The character a backslash escape stands for.\<close>

definition unescape :: "char \<Rightarrow> char option" where
  "unescape e =
     (if e = CHR 0x22 \<or> e = CHR 0x5C \<or> e = CHR ''/'' then Some e
      else if e = CHR ''b'' then Some (CHR 0x08)
      else if e = CHR ''f'' then Some (CHR 0x0C)
      else if e = CHR ''n'' then Some (CHR 0x0A)
      else if e = CHR ''r'' then Some (CHR 0x0D)
      else if e = CHR ''t'' then Some (CHR 0x09)
      else None)"

text \<open>Put a character in front of the string read so far.\<close>

definition cons_to :: "char \<Rightarrow> (string \<times> string) option \<Rightarrow> (string \<times> string) option" where
  "cons_to c r = (case r of None \<Rightarrow> None | Some (s, rest) \<Rightarrow> Some (c # s, rest))"

text \<open>
  A string after its opening quote: the characters up to the closing quote, and the rest
  of the input.  A control character inside a string is an error.
\<close>

fun json_string :: "string \<Rightarrow> (string \<times> string) option" where
  "json_string [] = None"
| "json_string (c # cs) =
     (if c = CHR 0x22 then Some ([], cs)
      else if c = CHR 0x5C then
        (case cs of
           [] \<Rightarrow> None
         | e # r \<Rightarrow>
             if e = CHR ''u'' then
               (case r of
                  h1 # h2 # h3 # h4 # r' \<Rightarrow>
                    (case hex4 h1 h2 h3 h4 of
                       None \<Rightarrow> None
                     | Some n \<Rightarrow> if n < 256 then cons_to (char_of n) (json_string r') else None)
                | _ \<Rightarrow> None)
             else (case unescape e of None \<Rightarrow> None | Some d \<Rightarrow> cons_to d (json_string r)))
      else if code_point c < 32 then None
      else cons_to c (json_string cs))"

text \<open>
  A number: an optional minus, the integer part (a lone 0, or digits not starting with
  0), an optional fraction (a dot and digits), an optional exponent.
\<close>

definition json_number :: "string \<Rightarrow> (pyval \<times> string) option" where
  "json_number s =
     (let (neg, r) = (case s of [] \<Rightarrow> (False, [])
                      | c # cs \<Rightarrow> if c = CHR ''-'' then (True, cs) else (False, s));
          run = takeWhile is_digit r
      in if run = [] then None
         else
           let ip = (if hd run = CHR ''0'' then ''0'' else run);
               r1 = drop (length ip) r;
               fp = (case r1 of [] \<Rightarrow> []
                     | c # cs \<Rightarrow> if c = CHR ''.'' then takeWhile is_digit cs else []);
               r2 = (if fp = [] then r1 else drop (Suc (length fp)) r1);
               (has_exp, eneg, ex, r3) =
                 (case r2 of
                    [] \<Rightarrow> (False, False, [], r2)
                  | c # cs \<Rightarrow>
                      if c = CHR ''e'' \<or> c = CHR ''E'' then
                        (let (sg, cs') = (case cs of [] \<Rightarrow> (False, [])
                                          | d # ds \<Rightarrow> if d = CHR ''-'' then (True, ds)
                                                     else if d = CHR ''+'' then (False, ds)
                                                     else (False, cs));
                             ed = takeWhile is_digit cs'
                         in if ed = [] then (False, False, [], r2)
                            else (True, sg, ed, drop (length ed) cs'))
                      else (False, False, [], r2));
               sign = (if neg then - 1 else 1)
           in if fp = [] \<and> \<not> has_exp then Some (PInt (sign * digits_val ip), r3)
              else Some (PFloat (sign * (real_of_int (digits_val ip) + real_of_int (digits_val fp) / 10 ^ length fp)
                                  * (if eneg then 1 / 10 ^ nat (digits_val ex) else 10 ^ nat (digits_val ex))), r3))"

text \<open>
  A value, the elements of an array after its bracket, and the members of an object
  after its brace.  Each call that goes deeper spends one unit of fuel and happens after a
  character at least was read for it, so the fuel \<open>json_loads\<close> gives, one more than
  the length of the input, is never used up on a document that decodes.
\<close>

fun json_value :: "nat \<Rightarrow> string \<Rightarrow> (pyval \<times> string) option"
  and json_elements :: "nat \<Rightarrow> string \<Rightarrow> (pyval list \<times> string) option"
  and json_members :: "nat \<Rightarrow> string \<Rightarrow> ((string \<times> pyval) list \<times> string) option" where
  "json_value 0 s = None"
| "json_value (Suc n) s =
     (case s of
        [] \<Rightarrow> None
      | c # cs \<Rightarrow>
          if c = CHR 0x22 then
            (case json_string cs of None \<Rightarrow> None | Some (str, r) \<Rightarrow> Some (PStr str, r))
          else if c = CHR ''{'' then
            (case skip_ws cs of
               [] \<Rightarrow> None
             | d # ds \<Rightarrow>
                 if d = CHR ''}'' then Some (PDict [], ds)
                 else (case json_members n (d # ds) of
                         None \<Rightarrow> None
                       | Some (kvs, r) \<Rightarrow>
                           Some (PDict (foldl (\<lambda>acc (k, v). dict_set k v acc) [] kvs), r)))
          else if c = CHR ''['' then
            (case skip_ws cs of
               [] \<Rightarrow> None
             | d # ds \<Rightarrow>
                 if d = CHR '']'' then Some (PList [], ds)
                 else (case json_elements n (d # ds) of
                         None \<Rightarrow> None
                       | Some (vs, r) \<Rightarrow> Some (PList vs, r)))
          else if starts_with ''null'' s then Some (PNone, drop 4 s)
          else if starts_with ''true'' s then Some (PBool True, drop 4 s)
          else if starts_with ''false'' s then Some (PBool False, drop 5 s)
          else json_number s)"
| "json_elements 0 s = None"
| "json_elements (Suc n) s =
     (case json_value n s of
        None \<Rightarrow> None
      | Some (v, r) \<Rightarrow>
          (case skip_ws r of
             [] \<Rightarrow> None
           | c # cs \<Rightarrow>
               if c = CHR '','' then
                 (case json_elements n (skip_ws cs) of
                    None \<Rightarrow> None
                  | Some (vs, r') \<Rightarrow> Some (v # vs, r'))
               else if c = CHR '']'' then Some ([v], cs)
               else None))"
| "json_members 0 s = None"
| "json_members (Suc n) s =
     (case s of
        [] \<Rightarrow> None
      | q # qs \<Rightarrow>
          if q \<noteq> CHR 0x22 then None
          else
            (case json_string qs of
               None \<Rightarrow> None
             | Some (k, r) \<Rightarrow>
                 (case skip_ws r of
                    [] \<Rightarrow> None
                  | c # cs \<Rightarrow>
                      if c \<noteq> CHR '':'' then None
                      else
                        (case json_value n (skip_ws cs) of
                           None \<Rightarrow> None
                         | Some (v, r') \<Rightarrow>
                             (case skip_ws r' of
                                [] \<Rightarrow> None
                              | d # ds \<Rightarrow>
                                  if d = CHR '','' then
                                    (case json_members n (skip_ws ds) of
                                       None \<Rightarrow> None
                                     | Some (kvs, r'') \<Rightarrow> Some ((k, v) # kvs, r''))
                                  else if d = CHR ''}'' then Some ([(k, v)], ds)
                                  else None)))))"

text \<open>Nothing but white space may follow the value.\<close>

definition json_loads :: "string \<Rightarrow> pyval option" where
  "json_loads s =
     (case json_value (Suc (length s)) (skip_ws s) of
        None \<Rightarrow> None
      | Some (v, r) \<Rightarrow> if skip_ws r = [] then Some v else None)"

section \<open>Extracting products from a page\<close>

text \<open>
  \<^verbatim>\<open>extract_products_from_html\<close>.  A product is the pair of \<^verbatim>\<open>'title'\<close> and
  \<^verbatim>\<open>'price'\<close>: the title is whatever object the page gave as a name, the price a float.
  The parameter \<^verbatim>\<open>store_name\<close> only labels the log lines and is left out, as is the
  logging.
\<close>

type_synonym product = "pyval \<times> real"

text \<open>\<^verbatim>\<open>obj.get(key, default)\<close>: only a dict has the method.\<close>

definition py_get :: "pyval \<Rightarrow> string \<Rightarrow> pyval \<Rightarrow> py_error + pyval" where
  "py_get obj key dflt =
     (case obj of
        PDict kvs \<Rightarrow> Inr (case map_of kvs key of None \<Rightarrow> dflt | Some v \<Rightarrow> v)
      | _ \<Rightarrow> Inl AttributeError)"

text \<open>
  \<^verbatim>\<open>d.get(key, default)\<close> where \<^verbatim>\<open>d\<close> is known to be a dict.
\<close>

definition dict_get :: "(string \<times> pyval) list \<Rightarrow> string \<Rightarrow> pyval \<Rightarrow> pyval" where
  "dict_get kvs key dflt = (case map_of kvs key of None \<Rightarrow> dflt | Some v \<Rightarrow> v)"

text \<open>\<^verbatim>\<open>a or b\<close>\<close>

definition py_or :: "pyval \<Rightarrow> pyval \<Rightarrow> pyval" where
  "py_or a b = (if truthy a then a else b)"

text \<open>
  \<^verbatim>\<open>x[0]\<close>: the keys of a decoded object are strings, so a dict has no key 0.
\<close>

fun py_first :: "pyval \<Rightarrow> py_error + pyval" where
  "py_first (PList xs) = (case xs of [] \<Rightarrow> Inl IndexError | x # rest \<Rightarrow> Inr x)"
| "py_first (PStr s) = (case s of [] \<Rightarrow> Inl IndexError | c # rest \<Rightarrow> Inr (PStr [c]))"
| "py_first (PDict kvs) = Inl KeyError"
| "py_first PNone = Inl TypeError"
| "py_first (PBool b) = Inl TypeError"
| "py_first (PInt i) = Inl TypeError"
| "py_first (PFloat r) = Inl TypeError"

text \<open>
  The objects a \<^verbatim>\<open>for\<close> loop over \<^verbatim>\<open>x\<close> visits.
\<close>

fun py_iter :: "pyval \<Rightarrow> py_error + pyval list" where
  "py_iter (PList xs) = Inr xs"
| "py_iter (PDict kvs) = Inr (map (\<lambda>kv. PStr (fst kv)) kvs)"
| "py_iter (PStr s) = Inr (map (\<lambda>c. PStr [c]) s)"
| "py_iter PNone = Inl TypeError"
| "py_iter (PBool b) = Inl TypeError"
| "py_iter (PInt i) = Inl TypeError"
| "py_iter (PFloat r) = Inl TypeError"

text \<open>
  A loop that appends what each round finds, inside no handler: the first round that
  raises ends the loop with its exception.
\<close>

fun collect_raising :: "('a \<Rightarrow> py_error + 'b list) \<Rightarrow> 'a list \<Rightarrow> py_error + 'b list" where
  "collect_raising f [] = Inr []"
| "collect_raising f (x # xs) =
     (case f x of
        Inl e \<Rightarrow> Inl e
      | Inr found \<Rightarrow>
          (case collect_raising f xs of Inl e \<Rightarrow> Inl e | Inr others \<Rightarrow> Inr (found @ others)))"

text \<open>
  A loop inside a \<^verbatim>\<open>try\<close> whose handler only logs: the first round that raises ends
  the loop, and what was appended before stays.
\<close>

fun collect_until_error :: "('a \<Rightarrow> py_error + 'b list) \<Rightarrow> 'a list \<Rightarrow> 'b list" where
  "collect_until_error f [] = []"
| "collect_until_error f (x # xs) =
     (case f x of Inl e \<Rightarrow> [] | Inr found \<Rightarrow> found @ collect_until_error f xs)"

text \<open>The first group of a match.\<close>

definition group1 :: "string \<times> string list \<Rightarrow> string" where
  "group1 m = (case snd m of [] \<Rightarrow> [] | g # gs \<Rightarrow> g)"

text \<open>
  \<^verbatim>\<open>re.sub(r'undefined', 'null', s)\<close>: every occurrence from left to right; \<open>skip\<close>
  counts the characters of an occurrence still to drop.
\<close>

fun sub_literal :: "string \<Rightarrow> string \<Rightarrow> nat \<Rightarrow> string \<Rightarrow> string" where
  "sub_literal pat rep skip [] = []"
| "sub_literal pat rep (Suc k) (c # cs) = sub_literal pat rep k cs"
| "sub_literal pat rep 0 (c # cs) =
     (if starts_with pat (c # cs) then rep @ sub_literal pat rep (length pat - 1) cs
      else c # sub_literal pat rep 0 cs)"

text \<open>
  \<^verbatim>\<open>if name and price: try: products.append(... float(price)) except (ValueError, TypeError): pass\<close>
\<close>

definition product_if_float :: "pyval \<Rightarrow> pyval \<Rightarrow> product list" where
  "product_if_float name price =
     (if truthy name \<and> truthy price
      then (case py_float price of Inl e \<Rightarrow> [] | Inr p \<Rightarrow> [(name, p)])
      else [])"

text \<open>\<^verbatim>\<open>if lo <= price_float <= hi: products.append(...)\<close>\<close>

definition in_range :: "real \<Rightarrow> real \<Rightarrow> pyval \<Rightarrow> real \<Rightarrow> product list" where
  "in_range lo hi title p = (if lo \<le> p \<and> p \<le> hi then [(title, p)] else [])"

text \<open>
  \<^verbatim>\<open>if price_float > threshold: price_float = price_float / 100\<close>
\<close>

definition from_cents :: "real \<Rightarrow> real \<Rightarrow> real" where
  "from_cents threshold p = (if p > threshold then p / 100 else p)"

subsection \<open>Strategy 1: JSON-LD\<close>

text \<open>
  \<^verbatim>\<open><script[^>]*type=["\']application/ld\+json["\'][^>]*>([\s\S]*?)</script>\<close>
\<close>

definition jsonld_pattern :: regex where
  \<open>jsonld_pattern =
     Seq [Lit ''<script'', Many (Not_char CHR ''>''), Lit ''type='',
          Cls False [CChar (CHR 0x22), CChar (CHR 0x27)], Lit ''application/ld+json'',
          Cls False [CChar (CHR 0x22), CChar (CHR 0x27)], Many (Not_char CHR ''>''), Lit ''>'',
          Group (Many_lazy AnyChar), Lit ''</script>'']\<close>

text \<open>
  \<^verbatim>\<open>offers.get('price') if isinstance(offers, dict) else None\<close>
\<close>

definition offers_price :: "pyval \<Rightarrow> pyval" where
  "offers_price offers = (case offers of PDict kvs \<Rightarrow> dict_get kvs ''price'' PNone | _ \<Rightarrow> PNone)"

text \<open>
  One round of \<^verbatim>\<open>for elem in item.get('itemListElement', [])\<close>.  The element's
  \<^verbatim>\<open>'item'\<close> is used as a dict without a test.
\<close>

definition jsonld_list_element :: "pyval \<Rightarrow> py_error + product list" where
  "jsonld_list_element elem =
     (case elem of
        PDict kvs \<Rightarrow>
          if truthy (dict_get kvs ''item'' PNone) then
            (let prod1 = dict_get kvs ''item'' (PDict []) in
             case py_get prod1 ''name'' (PStr []) of
               Inl e \<Rightarrow> Inl e
             | Inr name \<Rightarrow>
                 (case py_get prod1 ''offers'' (PDict []) of
                    Inl e \<Rightarrow> Inl e
                  | Inr offers \<Rightarrow> Inr (product_if_float name (offers_price offers))))
          else Inr []
      | _ \<Rightarrow> Inr [])"

text \<open>
  One round of \<^verbatim>\<open>for item in items\<close>: \<^verbatim>\<open>item\<close> is used as a dict without a
  test.
\<close>

definition jsonld_item :: "pyval \<Rightarrow> py_error + product list" where
  "jsonld_item item =
     (case py_get item ''@type'' (PStr []) of
        Inl e \<Rightarrow> Inl e
      | Inr item_type \<Rightarrow>
          if item_type \<in> set [PStr ''Product'', PStr ''ItemList'', PStr ''ProductGroup''] then
            if item_type = PStr ''ItemList'' then
              (case py_get item ''itemListElement'' (PList []) of
                 Inl e \<Rightarrow> Inl e
               | Inr elements \<Rightarrow>
                   (case py_iter elements of
                      Inl e \<Rightarrow> Inl e
                    | Inr elems \<Rightarrow> collect_raising jsonld_list_element elems))
            else
              (case py_get item ''name'' (PStr []) of
                 Inl e \<Rightarrow> Inl e
               | Inr name \<Rightarrow>
                   (case py_get item ''offers'' (PDict []) of
                      Inl e \<Rightarrow> Inl e
                    | Inr offers0 \<Rightarrow>
                        (let offers = (case offers0 of
                                         PList (first # rest) \<Rightarrow> first
                                       | _ \<Rightarrow> offers0);
                             price = offers_price offers;
                             price = (case offers of
                                        PDict kvs \<Rightarrow>
                                          if \<not> truthy price
                                          then py_or (dict_get kvs ''lowPrice'' PNone)
                                                 (dict_get kvs ''highPrice'' PNone)
                                          else price
                                      | _ \<Rightarrow> price)
                         in Inr (product_if_float name price))))
          else Inr [])"

text \<open>
  One round of \<^verbatim>\<open>for jsonld in jsonld_matches\<close>: the handler catches
  \<^verbatim>\<open>json.JSONDecodeError\<close> alone, which only \<^verbatim>\<open>json.loads\<close> raises.
\<close>

definition jsonld_block :: "string \<Rightarrow> py_error + product list" where
  "jsonld_block jsonld =
     (case json_loads jsonld of
        None \<Rightarrow> Inr []
      | Some data \<Rightarrow>
          (let items = (case data of PList xs \<Rightarrow> xs | _ \<Rightarrow> [data])
           in collect_raising jsonld_item items))"

text \<open>The products after the first strategy, or the exception that left it.\<close>

definition jsonld_products :: "string \<Rightarrow> py_error + product list" where
  "jsonld_products html =
     collect_raising jsonld_block (map group1 (re_findall True jsonld_pattern html))"

subsection \<open>Strategy 2: VTEX\<close>

text \<open>
  \<^verbatim>\<open>__STATE__\s*=\s*(\{[\s\S]*?\});?\s*(?:</script>|window\.)\<close>
\<close>

definition state_pattern :: regex where
  \<open>state_pattern =
     Seq [Lit ''__STATE__'', Many Space, Lit ''='', Many Space,
          Group (Seq [Lit ''{'', Many_lazy AnyChar, Lit ''}'']),
          Maybe (Lit '';''), Many Space, Alt [Lit ''</script>'', Lit ''window.'']]\<close>

text \<open>
  The price under \<^verbatim>\<open>items[0]['sellers'][0]['commertialOffer']\<close>, looked up when the
  entry has no price of its own; the price stays as it was where a level is missing.
\<close>

definition offer_of_first_seller :: "(string \<times> pyval) list \<Rightarrow> pyval \<Rightarrow> py_error + pyval" where
  "offer_of_first_seller kvs price =
     (let items = dict_get kvs ''items'' (PList []) in
      if \<not> truthy items then Inr price
      else
        case py_first items of
          Inl e \<Rightarrow> Inl e
        | Inr first_item \<Rightarrow>
            (case first_item of
               PDict item_kvs \<Rightarrow>
                 (let sellers = dict_get item_kvs ''sellers'' (PList []) in
                  if \<not> truthy sellers then Inr price
                  else
                    case py_first sellers of
                      Inl e \<Rightarrow> Inl e
                    | Inr first_seller \<Rightarrow>
                        (case first_seller of
                           PDict seller_kvs \<Rightarrow>
                             (let offer = dict_get seller_kvs ''commertialOffer'' (PDict []) in
                              case py_get offer ''Price'' PNone of
                                Inl e \<Rightarrow> Inl e
                              | Inr p1 \<Rightarrow>
                                  (case py_get offer ''sellingPrice'' PNone of
                                     Inl e \<Rightarrow> Inl e
                                   | Inr p2 \<Rightarrow> Inr (py_or p1 p2)))
                         | _ \<Rightarrow> Inr price))
             | _ \<Rightarrow> Inr price))"

text \<open>One round of \<^verbatim>\<open>for key, value in state_data.items()\<close>.\<close>

definition vtex_state_entry :: "pyval \<Rightarrow> py_error + product list" where
  "vtex_state_entry entry =
     (case entry of
        PDict kvs \<Rightarrow>
          if map_of kvs ''productName'' \<noteq> None \<or> map_of kvs ''name'' \<noteq> None then
            (let name = py_or (dict_get kvs ''productName'' PNone) (dict_get kvs ''name'' (PStr []));
                 price = py_or (py_or (dict_get kvs ''price'' PNone)
                                  (dict_get kvs ''sellingPrice'' PNone))
                           (dict_get kvs ''Price'' PNone)
             in case (if \<not> truthy price then offer_of_first_seller kvs price else Inr price) of
                  Inl e \<Rightarrow> Inl e
                | Inr price \<Rightarrow>
                    if truthy name \<and> truthy price then
                      (case py_float price of
                         Inl e \<Rightarrow> Inr []
                       | Inr price_float \<Rightarrow>
                           Inr (in_range 5 50000 name (from_cents 10000 price_float)))
                    else Inr [])
          else Inr []
      | _ \<Rightarrow> Inr [])"

text \<open>
  The whole strategy runs inside \<^verbatim>\<open>try\<close> with a handler for every exception, so it
  yields what was appended before a failure.
\<close>

definition vtex_state_products :: "string \<Rightarrow> product list" where
  "vtex_state_products html =
     (case re_search False state_pattern html of
        None \<Rightarrow> []
      | Some state_match \<Rightarrow>
          (let state_str = sub_literal ''undefined'' ''null'' 0 (group1 state_match) in
           case json_loads state_str of
             None \<Rightarrow> []
           | Some state_data \<Rightarrow>
               (case state_data of
                  PDict kvs \<Rightarrow> collect_until_error vtex_state_entry (map snd kvs)
                | _ \<Rightarrow> [])))"

text \<open>
  One round of \<^verbatim>\<open>for name, price in matches\<close> of the strategies that read name and
  price with one pattern: convert, divide by 100 above the threshold if there is one,
  keep within the range.
\<close>

definition priced_match ::
  "real option \<Rightarrow> real \<Rightarrow> real \<Rightarrow> string \<times> string list \<Rightarrow> product list" where
  "priced_match threshold lo hi m =
     (case snd m of
        [name, price] \<Rightarrow>
          (case float_of_str price of
             Inl e \<Rightarrow> []
           | Inr price_float \<Rightarrow>
               in_range lo hi (PStr name)
                 (case threshold of None \<Rightarrow> price_float | Some t \<Rightarrow> from_cents t price_float))
      | _ \<Rightarrow> [])"

text \<open>\<^verbatim>\<open>\s*:\s*\<close>\<close>

definition colon :: "regex list" where
  "colon = [Many Space, Lit '':'', Many Space]"

text \<open>
  \<^verbatim>\<open>"productName"\s*:\s*"([^"]+)"[^}]*"sellingPrice"\s*:\s*(\d+)\<close>
\<close>

definition vtex_render_pattern :: regex where
  \<open>vtex_render_pattern =
     Seq ([Lit ''"productName"''] @ colon @
          [Lit ''"'', Group (Many1 (Not_char (CHR 0x22))), Lit ''"'', Many (Not_char CHR ''}''),
           Lit ''"sellingPrice"''] @ colon @ [Group (Many1 Digit)])\<close>

text \<open>
  \<^verbatim>\<open>"product"\s*:\s*\{[^}]*"productName"\s*:\s*"([^"]+)"[^}]*\}[^}]*"priceRange"\s*:\s*\{[^}]*"sellingPrice"\s*:\s*\{[^}]*"lowPrice"\s*:\s*([\d.]+)\<close>
\<close>

definition vtex_query_pattern :: regex where
  \<open>vtex_query_pattern =
     Seq ([Lit ''"product"''] @ colon @
          [Lit ''{'', Many (Not_char CHR ''}''), Lit ''"productName"''] @ colon @
          [Lit ''"'', Group (Many1 (Not_char (CHR 0x22))), Lit ''"'', Many (Not_char CHR ''}''),
           Lit ''}'', Many (Not_char CHR ''}''), Lit ''"priceRange"''] @ colon @
          [Lit ''{'', Many (Not_char CHR ''}''), Lit ''"sellingPrice"''] @ colon @
          [Lit ''{'', Many (Not_char CHR ''}''), Lit ''"lowPrice"''] @ colon @
          [Group (Many1 (Cls False [CDigit, CChar CHR ''.'']))])\<close>

text \<open>
  \<^verbatim>\<open>"productName"\s*:\s*"([^"]+)"[\s\S]{0,500}?"(?:Price|sellingPrice)"\s*:\s*([\d.]+)\<close>
\<close>

definition vtex_simple_pattern :: regex where
  \<open>vtex_simple_pattern =
     Seq ([Lit ''"productName"''] @ colon @
          [Lit ''"'', Group (Many1 (Not_char (CHR 0x22))), Lit ''"'',
           Rep AnyChar 0 (Some 500) False,
           Lit ''"'', Alt [Lit ''Price'', Lit ''sellingPrice''], Lit ''"''] @ colon @
          [Group (Many1 (Cls False [CDigit, CChar CHR ''.'']))])\<close>

subsection \<open>Strategy 3: the data island of Next.js\<close>

text \<open>
  \<^verbatim>\<open><script[^>]*id="__NEXT_DATA__"[^>]*>([\s\S]*?)</script>\<close>
\<close>

definition next_pattern :: regex where
  \<open>next_pattern =
     Seq [Lit ''<script'', Many (Not_char CHR ''>''), Lit ''id="__NEXT_DATA__"'',
          Many (Not_char CHR ''>''), Lit ''>'', Group (Many_lazy AnyChar), Lit ''</script>'']\<close>

text \<open>One round of the loop over the search results.\<close>

definition next_data_product :: "pyval \<Rightarrow> py_error + product list" where
  "next_data_product prod1 =
     (case prod1 of
        PDict kvs \<Rightarrow>
          (let name = py_or (py_or (dict_get kvs ''name'' PNone) (dict_get kvs ''title'' PNone))
                        (dict_get kvs ''productName'' (PStr []));
               price = py_or (py_or (dict_get kvs ''price'' PNone)
                                (dict_get kvs ''salePrice'' PNone))
                         (dict_get kvs ''sellingPrice'' PNone)
           in case (if \<not> truthy price \<and> map_of kvs ''priceInfo'' \<noteq> None
                    then py_get (dict_get kvs ''priceInfo'' PNone) ''currentPrice'' PNone
                    else Inr price) of
                Inl e \<Rightarrow> Inl e
              | Inr price \<Rightarrow> Inr (product_if_float name price))
      | _ \<Rightarrow> Inr [])"

text \<open>
  \<^verbatim>\<open>props = next_data.get('props', {}).get('pageProps', {})\<close> and the search
  results under it; the defaults of the nested \<^verbatim>\<open>get\<close> calls are evaluated first.
\<close>

definition next_data_results :: "pyval \<Rightarrow> py_error + pyval" where
  "next_data_results next_data =
     (case py_get next_data ''props'' (PDict []) of
        Inl e \<Rightarrow> Inl e
      | Inr p \<Rightarrow>
          (case py_get p ''pageProps'' (PDict []) of
             Inl e \<Rightarrow> Inl e
           | Inr props \<Rightarrow>
               (case props of
                  PDict kvs \<Rightarrow>
                    (let search_results =
                           dict_get kvs ''searchResults''
                             (dict_get kvs ''products'' (dict_get kvs ''items'' (PList [])))
                     in case search_results of
                          PDict rkvs \<Rightarrow>
                            Inr (dict_get rkvs ''products'' (dict_get rkvs ''items'' (PList [])))
                        | _ \<Rightarrow> Inr search_results)
                | _ \<Rightarrow> Inl AttributeError)))"

text \<open>
  The whole strategy runs inside \<^verbatim>\<open>try\<close> with a handler for every exception.
\<close>

definition next_data_products :: "string \<Rightarrow> product list" where
  "next_data_products html =
     (case re_search False next_pattern html of
        None \<Rightarrow> []
      | Some next_match \<Rightarrow>
          (case json_loads (group1 next_match) of
             None \<Rightarrow> []
           | Some next_data \<Rightarrow>
               (case next_data_results next_data of
                  Inl e \<Rightarrow> []
                | Inr search_results \<Rightarrow>
                    (case search_results of
                       PList prods \<Rightarrow> collect_until_error next_data_product prods
                     | _ \<Rightarrow> []))))"

subsection \<open>Strategy 4: name and price in embedded JSON\<close>

text \<open>
  \<^verbatim>\<open>"(?:name|title|productName)"\s*:\s*"([^"]{5,100})"[\s\S]{0,300}?"(?:price|Price|salePrice|sellingPrice|currentPrice)"\s*:\s*"?([\d.]+)"?\<close>
\<close>

definition generic_pattern :: regex where
  \<open>generic_pattern =
     Seq ([Lit ''"'', Alt [Lit ''name'', Lit ''title'', Lit ''productName''], Lit ''"''] @ colon @
          [Lit ''"'', Group (Rep (Not_char (CHR 0x22)) 5 (Some 100) True), Lit ''"'',
           Rep AnyChar 0 (Some 300) False,
           Lit ''"'',
           Alt [Lit ''price'', Lit ''Price'', Lit ''salePrice'', Lit ''sellingPrice'',
                Lit ''currentPrice''],
           Lit ''"''] @ colon @
          [Maybe (Lit ''"''), Group (Many1 (Cls False [CDigit, CChar CHR ''.''])),
           Maybe (Lit ''"'')])\<close>

subsection \<open>Strategy 5: the markup itself\<close>

text \<open>
  \<^verbatim>\<open>\$\s*([\d,]+(?:\.\d{2})?)\<close>, the end of each of the four patterns.
\<close>

definition dollar_amount :: "regex list" where
  "dollar_amount =
     [Lit ''$'', Many Space,
      Group (Seq [Many1 (Cls False [CDigit, CChar CHR '','']),
                  Maybe (Seq [Lit ''.'', Rep Digit 2 (Some 2) True])])]"

text \<open>
  The four patterns start with \<^verbatim>\<open>data-product-name="([^"]{5,100})"[\s\S]{0,500}?\<close>,
  \<^verbatim>\<open>aria-label="([^"]{5,100})"[\s\S]{0,300}?\<close>,
  \<^verbatim>\<open><img[^>]*title="([^"]{5,80})"[^>]*>[\s\S]{0,400}?\<close> and
  \<^verbatim>\<open><h[23][^>]*>([^<]{5,80})</h[23]>[\s\S]{0,300}?\<close>.
\<close>

definition html_product_patterns :: "regex list" where
  \<open>html_product_patterns =
     [Seq ([Lit ''data-product-name="'', Group (Rep (Not_char (CHR 0x22)) 5 (Some 100) True),
            Lit ''"'', Rep AnyChar 0 (Some 500) False] @ dollar_amount),
      Seq ([Lit ''aria-label="'', Group (Rep (Not_char (CHR 0x22)) 5 (Some 100) True),
            Lit ''"'', Rep AnyChar 0 (Some 300) False] @ dollar_amount),
      Seq ([Lit ''<img'', Many (Not_char CHR ''>''), Lit ''title="'',
            Group (Rep (Not_char (CHR 0x22)) 5 (Some 80) True), Lit ''"'',
            Many (Not_char CHR ''>''), Lit ''>'', Rep AnyChar 0 (Some 400) False] @ dollar_amount),
      Seq ([Lit ''<h'', Cls False [CChar CHR ''2'', CChar CHR ''3''], Many (Not_char CHR ''>''),
            Lit ''>'', Group (Rep (Not_char CHR ''<'') 5 (Some 80) True),
            Lit ''</h'', Cls False [CChar CHR ''2'', CChar CHR ''3''], Lit ''>'',
            Rep AnyChar 0 (Some 300) False] @ dollar_amount)]\<close>

text \<open>
  One round of \<^verbatim>\<open>for name, price in matches\<close> of the fifth strategy.
\<close>

definition html_match :: "string \<times> string list \<Rightarrow> product list" where
  "html_match m =
     (case snd m of
        [name, price] \<Rightarrow>
          (let price_str = filter (\<lambda>c. c \<noteq> CHR '','') price in
           case float_of_str price_str of
             Inl e \<Rightarrow> []
           | Inr price_float \<Rightarrow> in_range 5 50000 (PStr (strip name)) price_float)
      | _ \<Rightarrow> [])"

text \<open>
  All four patterns are run, under \<^verbatim>\<open>re.IGNORECASE\<close>, and their products put together.
\<close>

definition html_products :: "string \<Rightarrow> product list" where
  "html_products html =
     concat (map (\<lambda>pattern. concat (map html_match (re_findall True pattern html)))
               html_product_patterns)"

subsection \<open>The cascade\<close>

text \<open>
  The strategies in order; the first whose products are not empty returns them.  The
  thresholds and ranges are those of the source: 10000 and 5 to 50000 for the render
  pattern, no threshold and 5 to 5000 for the query pattern, 1000 and 5 to 5000 for the
  simple pattern, 10000 and 5 to 50000 for the generic pattern.
\<close>

definition extract_products_from_html :: "string \<Rightarrow> py_error + product list" where
  "extract_products_from_html html =
     (case jsonld_products html of
        Inl e \<Rightarrow> Inl e
      | Inr products \<Rightarrow>
          if products \<noteq> [] then Inr products
          else
            let products = vtex_state_products html in
            if products \<noteq> [] then Inr products
            else
              let products = concat (map (priced_match (Some 10000) 5 50000)
                                       (re_findall False vtex_render_pattern html)) in
              if products \<noteq> [] then Inr products
              else
                let products = concat (map (priced_match None 5 5000)
                                         (re_findall False vtex_query_pattern html)) in
                if products \<noteq> [] then Inr products
                else
                  let products = concat (map (priced_match (Some 1000) 5 5000)
                                           (re_findall False vtex_simple_pattern html)) in
                  if products \<noteq> [] then Inr products
                  else
                    let products = next_data_products html in
                    if products \<noteq> [] then Inr products
                    else
                      let products = concat (map (priced_match (Some 10000) 5 50000)
                                               (re_findall False generic_pattern html)) in
                      if products \<noteq> [] then Inr products
                      else Inr (html_products html))"

subsection \<open>Sample pages\<close>

text \<open>
  One page for each strategy, two more for JSON-LD, and one that no strategy reads.
\<close>

definition page_jsonld_array :: string where
  \<open>page_jsonld_array = ''<html><script type="application/ld+json">[1]</script></html>''\<close>

definition page_jsonld_cheap :: string where
  \<open>page_jsonld_cheap = ''<script type="application/ld+json">{"@type":"Product","name":"Chicle","offers":{"price":"1.50"}}</script>''\<close>

definition page_jsonld_url_item :: string where
  \<open>page_jsonld_url_item = ''<script type="application/ld+json">{"@type":"ItemList","itemListElement":[{"@type":"ListItem","position":1,"item":"https://www.tienda.mx/p/1"}]}</script>''\<close>

definition page_vtex_render :: string where
  \<open>page_vtex_render = ''{"productName":"Leche Lala 1L","brand":"Lala","sellingPrice":2550}''\<close>

definition page_vtex_state :: string where
  \<open>page_vtex_state = ''<script>__STATE__ = {"Product:1":{"productName":"Leche","items":[{"sellers":[{"commertialOffer":{"Price":27.5}}]}]},"x":{"name":"Pan","price":undefined}};</script>''\<close>

definition page_next_data :: string where
  \<open>page_next_data = ''<script id="__NEXT_DATA__" type="application/json">{"props":{"pageProps":{"searchResults":{"products":[{"name":"Agua","price":80000},{"title":"Jugo","priceInfo":{"currentPrice":"2"}}]}}}}</script>''\<close>

definition page_markup :: string where
  \<open>page_markup = ''<div><h2 class="t">Galletas Marias</h2><span class="p">$ 1,234.50</span></div>''\<close>

definition page_embedded_json :: string where
  \<open>page_embedded_json = ''{"title":"Cereal Zucaritas","sku":"1","price":"89.90"}''\<close>

definition page_plain :: string where
  \<open>page_plain = ''<html><body><p>No hay resultados</p></body></html>''\<close>


section \<open>The price-check endpoint\<close>
















section \<open>Properties of the consolidation\<close>

lemma map_of_dict_set: "map_of (dict_set k v d) = (map_of d)(k \<mapsto> v)"
  by (induction d) (auto simp: fun_eq_iff)

lemma dict_set_keys: "fst ` set (dict_set k v d) = insert k (fst ` set d)"
  by (simp add: dom_map_of_conv_image_fst[symmetric] map_of_dict_set)

lemma distinct_dict_set: "distinct (map fst d) \<Longrightarrow> distinct (map fst (dict_set k v d))"
  by (induction d) (auto simp: dict_set_keys)

lemma entry_of_fields [simp]:
  "se_store (entry_of y p) = item_key y" "se_price (entry_of y p) = p"
  "se_estimated (entry_of y p) = item_estimated y" "se_url (entry_of y p) = item_url y"
  "se_source_api (entry_of y p) = item_source_api y"
  by (simp_all add: entry_of_def)

lemma consolidate_step_skip: "item_value x = None \<Longrightarrow> consolidate_step stores x = stores"
  by (auto simp: consolidate_step_def item_value_def Let_def split: option.splits if_splits)

lemma consolidate_step_lookup:
  assumes "item_value x = Some p"
  shows "map_of (consolidate_step stores x) k =
     (if item_key x \<noteq> k then map_of stores k
      else case map_of stores k of
        None \<Rightarrow> Some (entry_of x p)
      | Some existing \<Rightarrow>
          if se_estimated existing \<and> \<not> item_estimated x then Some (entry_of x p)
          else if se_estimated existing = item_estimated x \<and> p < se_price existing
               then Some (entry_of x p)
          else Some existing)"
  using assms
  by (auto simp: consolidate_step_def item_value_def item_key_def entry_of_def Let_def
        map_of_dict_set split: option.splits if_splits)

lemma consolidate_step_distinct:
  "distinct (map fst stores) \<Longrightarrow> distinct (map fst (consolidate_step stores x))"
  by (auto simp: consolidate_step_def Let_def distinct_dict_set split: option.splits)

lemma consolidate_prices_snoc:
  "consolidate_prices (xs @ [x]) = consolidate_step (consolidate_prices xs) x"
  by (simp add: consolidate_prices_def)

lemma consolidate_prices_distinct: "distinct (map fst (consolidate_prices xs))"
proof (induction xs rule: rev_induct)
  case Nil
  show ?case by (simp add: consolidate_prices_def)
next
  case (snoc x xs)
  then show ?case by (simp add: consolidate_prices_snoc consolidate_step_distinct)
qed

text \<open>The invariant holds after every prefix of the input, hence at the end.\<close>

lemma consolidate_prices_summarises:
  "summarises xs k (map_of (consolidate_prices xs) k)"
proof (induction xs rule: rev_induct)
  case Nil
  show ?case by (simp add: summarises_def consolidate_prices_def)
next
  case (snoc x xs)
  show ?case
  proof (cases "item_value x")
    case None
    with snoc show ?thesis
      by (auto simp: consolidate_prices_snoc consolidate_step_skip summarises_def covers_def
            split: option.splits)
  next
    case (Some p)
    show ?thesis
    proof (cases "item_key x = k")
      case False
      with snoc Some show ?thesis
        by (auto simp: consolidate_prices_snoc consolidate_step_lookup summarises_def
              split: option.splits)
    next
      case True
      with snoc Some show ?thesis
        apply (auto simp: consolidate_prices_snoc consolidate_step_lookup summarises_def
                 covers_def entry_of_def split: option.splits)
        apply (drule_tac x=z in bspec)
         apply auto
        done
    qed
  qed
qed

text \<open>An item that was part of the input changes nothing when it is fed in again.\<close>

lemma consolidate_absorbs:
  assumes "x \<in> set xs"
  shows "consolidate_step (consolidate_prices xs) x = consolidate_prices xs"
proof (cases "item_value x")
  case None
  then show ?thesis by (rule consolidate_step_skip)
next
  case (Some p)
  have s: "summarises xs (item_key x) (map_of (consolidate_prices xs) (item_key x))"
    by (rule consolidate_prices_summarises)
  from s assms Some obtain e where e: "map_of (consolidate_prices xs) (item_key x) = Some e"
    and c: "covers e x"
    by (auto simp: summarises_def split: option.splits)
  from c Some have "\<not> (se_estimated e \<and> \<not> item_estimated x)"
    and "\<not> (se_estimated e = item_estimated x \<and> p < se_price e)"
    by (auto simp: covers_def)
  with e Some show ?thesis
    by (auto simp: consolidate_step_def item_value_def item_key_def Let_def
          split: option.splits if_splits)
qed

lemma foldl_fixed: "(\<And>x. x \<in> set ys \<Longrightarrow> f s x = s) \<Longrightarrow> foldl f s ys = s"
  by (induction ys) auto

lemma consolidate_twice: "consolidate_prices (xs @ xs) = consolidate_prices xs"
  unfolding consolidate_prices_def foldl_append
  by (rule foldl_fixed) (simp add: consolidate_absorbs[unfolded consolidate_prices_def])

lemma summarises_set: "set xs = set ys \<Longrightarrow> summarises xs k r = summarises ys k r"
  by (simp add: summarises_def split: option.splits)

lemma summarises_unique:
  assumes "summarises xs k r" "summarises xs k r'"
  shows "rel_option same_offer r r'"
proof (cases r)
  case None
  with assms show ?thesis
    by (cases r') (auto simp: summarises_def)
next
  case (Some e)
  show ?thesis
  proof (cases r')
    case None
    with Some assms show ?thesis by (auto simp: summarises_def)
  next
    case r': (Some e')
    from assms(1) Some obtain y where y: "y \<in> set xs" "item_key y = k"
      "item_value y = Some (se_price e)" "e = entry_of y (se_price e)"
      and all: "\<forall>z \<in> set xs. item_key z = k \<longrightarrow> covers e z"
      by (auto simp: summarises_def)
    from assms(2) r' obtain y' where y': "y' \<in> set xs" "item_key y' = k"
      "item_value y' = Some (se_price e')" "e' = entry_of y' (se_price e')"
      and all': "\<forall>z \<in> set xs. item_key z = k \<longrightarrow> covers e' z"
      by (auto simp: summarises_def)
    have est: "se_estimated e = item_estimated y" "se_estimated e' = item_estimated y'"
      and st: "se_store e = k" "se_store e' = k"
      using y(2,4) y'(2,4) by (metis entry_of_fields(1,3))+
    from all y' have c1: "covers e y'" by blast
    from all' y have c2: "covers e' y" by blast
    from c1 c2 y(3) y'(3) est have "se_estimated e = se_estimated e'"
      by (auto simp: covers_def)
    moreover with c1 c2 y(3) y'(3) est have "se_price e = se_price e'"
      by (auto simp: covers_def)
    ultimately show ?thesis using Some r' st by (simp add: same_offer_def)
  qed
qed

lemma consolidate_same_items:
  assumes "set xs = set ys"
  shows "rel_option same_offer (map_of (consolidate_prices xs) k)
           (map_of (consolidate_prices ys) k)"
  by (rule summarises_unique[of xs k])
     (simp_all add: consolidate_prices_summarises summarises_set[OF assms])

text \<open>The sample items, evaluated.\<close>

lemma sample_values:
  "item_value verified30 = Some 30" "item_value estimated10 = Some 10"
  "item_value verified_unpriced = None" "item_value zero_text = Some 0"
  "item_key verified30 = ''Walmart Mexico''" "item_key estimated10 = ''Walmart Mexico''"
  "item_estimated verified30 = False" "item_estimated estimated10 = True"
  by code_simp+

text \<open>
  Claim C1, as amended.  Take any list and any store key \<open>k\<close> under which the list holds
  an item that is not skipped.  Then the result has an entry for \<open>k\<close>; the entry is the
  one built from an item \<open>y\<close> of the list filed under \<open>k\<close>; it is estimated only if every
  item under \<open>k\<close> that is not skipped is estimated, so one verified item makes the entry
  verified whatever the prices; and no item under \<open>k\<close> of the entry's own class is
  cheaper than it.
\<close>

theorem consolidate_prices_precedence:
  assumes "x \<in> set all_prices" and "item_key x = k" and "item_value x = Some q"
  shows "\<exists>e y. map_of (consolidate_prices all_prices) k = Some e
           \<and> y \<in> set all_prices \<and> item_key y = k \<and> item_value y = Some (se_price e)
           \<and> e = entry_of y (se_price e)
           \<and> (se_estimated e \<longleftrightarrow>
                (\<forall>z \<in> set all_prices. item_key z = k \<and> item_value z \<noteq> None \<longrightarrow> item_estimated z))
           \<and> (\<forall>z \<in> set all_prices. \<forall>r. item_key z = k \<and> item_value z = Some r
                  \<and> item_estimated z = se_estimated e \<longrightarrow> se_price e \<le> r)"
proof -
  have s: "summarises all_prices k (map_of (consolidate_prices all_prices) k)"
    by (rule consolidate_prices_summarises)
  from s assms obtain e where e: "map_of (consolidate_prices all_prices) k = Some e"
    by (cases "map_of (consolidate_prices all_prices) k") (auto simp: summarises_def)
  from s e obtain y where y: "y \<in> set all_prices" "item_key y = k"
      "item_value y = Some (se_price e)" "e = entry_of y (se_price e)"
    and all: "\<forall>z \<in> set all_prices. item_key z = k \<longrightarrow> covers e z"
    by (auto simp: summarises_def)
  have est: "se_estimated e = item_estimated y"
    using y(4) by (metis entry_of_fields(3))
  have a: "se_estimated e \<longleftrightarrow>
      (\<forall>z \<in> set all_prices. item_key z = k \<and> item_value z \<noteq> None \<longrightarrow> item_estimated z)"
  proof
    assume "se_estimated e"
    with all show "\<forall>z \<in> set all_prices. item_key z = k \<and> item_value z \<noteq> None \<longrightarrow> item_estimated z"
      by (fastforce simp: covers_def)
  next
    assume "\<forall>z \<in> set all_prices. item_key z = k \<and> item_value z \<noteq> None \<longrightarrow> item_estimated z"
    with y est show "se_estimated e" by auto
  qed
  have b: "\<forall>z \<in> set all_prices. \<forall>r. item_key z = k \<and> item_value z = Some r
                  \<and> item_estimated z = se_estimated e \<longrightarrow> se_price e \<le> r"
    using all by (fastforce simp: covers_def)
  from e y a b show ?thesis by blast
qed

text \<open>
  The theorem at the estimated $10 offer followed by the verified $30 offer for Walmart,
  and the two examples of the specification evaluated: the verified $30 offer is kept in
  either order, and of the verified $45 and $38 offers the $38 one is kept.
\<close>

theorem consolidate_prices_precedence_witness:
  "verified30 \<in> set [estimated10, verified30]
   \<and> item_key verified30 = ''Walmart Mexico'' \<and> item_value verified30 = Some 30
   \<and> (\<exists>e y. map_of (consolidate_prices [estimated10, verified30]) ''Walmart Mexico'' = Some e
         \<and> y \<in> set [estimated10, verified30] \<and> item_key y = ''Walmart Mexico''
         \<and> item_value y = Some (se_price e) \<and> e = entry_of y (se_price e)
         \<and> (se_estimated e \<longleftrightarrow>
              (\<forall>z \<in> set [estimated10, verified30].
                  item_key z = ''Walmart Mexico'' \<and> item_value z \<noteq> None \<longrightarrow> item_estimated z))
         \<and> (\<forall>z \<in> set [estimated10, verified30]. \<forall>r.
                item_key z = ''Walmart Mexico'' \<and> item_value z = Some r
                \<and> item_estimated z = se_estimated e \<longrightarrow> se_price e \<le> r))
   \<and> consolidate_prices [estimated10, verified30] = [(''Walmart Mexico'', entry_of verified30 30)]
   \<and> consolidate_prices [verified30, estimated10] = [(''Walmart Mexico'', entry_of verified30 30)]
   \<and> consolidate_prices [verified45, verified38] = [(''Soriana'', entry_of verified38 38)]"
proof -
  have m: "verified30 \<in> set [estimated10, verified30]" by simp
  have k: "item_key verified30 = ''Walmart Mexico''" and v: "item_value verified30 = Some 30"
    by (rule sample_values)+
  note main = consolidate_prices_precedence[OF m k v]
  have e1: "consolidate_prices [estimated10, verified30]
              = [(''Walmart Mexico'', entry_of verified30 30)]"
    by code_simp
  have e2: "consolidate_prices [verified30, estimated10]
              = [(''Walmart Mexico'', entry_of verified30 30)]"
    by code_simp
  have e3: "consolidate_prices [verified45, verified38] = [(''Soriana'', entry_of verified38 38)]"
    by code_simp
  from m k v main e1 e2 e3 show ?thesis by blast
qed

text \<open>
  The claim as stated fails where the verified item carries no usable price: a verified
  Walmart item priced 0 and an estimated Walmart item priced 10 leave the estimated one.
\<close>

theorem consolidate_prices_unpriced_verified_counterexample:
  "item_key verified_unpriced = ''Walmart Mexico'' \<and> item_estimated verified_unpriced = False
   \<and> item_key estimated10 = ''Walmart Mexico'' \<and> item_estimated estimated10 = True
   \<and> consolidate_prices [verified_unpriced, estimated10]
       = [(''Walmart Mexico'',
           \<lparr>se_store = ''Walmart Mexico'', se_price = 10, se_url = [],
            se_source_api = ''oxylabs'', se_estimated = True\<rparr>)]"
  by code_simp

text \<open>
  Claim C7, as amended.  For every list and every permutation of it, each store key has
  an entry in both results or in neither, and the two entries have the same store, price
  and estimated flag; and a list consolidated together with a copy of itself gives
  exactly the result of the list alone.
\<close>

theorem consolidate_prices_order_and_repeat:
  assumes "mset ps' = mset ps"
  shows "(\<forall>k. rel_option same_offer (map_of (consolidate_prices ps) k)
                 (map_of (consolidate_prices ps') k))
       \<and> consolidate_prices (ps @ ps) = consolidate_prices ps"
  using consolidate_same_items[of ps ps'] mset_eq_setD[OF assms] consolidate_twice[of ps]
  by simp

theorem consolidate_prices_order_and_repeat_witness:
  "mset [verified30, estimated10] = mset [estimated10, verified30]
   \<and> (\<forall>k. rel_option same_offer (map_of (consolidate_prices [estimated10, verified30]) k)
                 (map_of (consolidate_prices [verified30, estimated10]) k))
   \<and> consolidate_prices ([estimated10, verified30] @ [estimated10, verified30])
       = consolidate_prices [estimated10, verified30]"
proof -
  have p: "mset [verified30, estimated10] = mset [estimated10, verified30]"
    by (simp add: add_mset_commute)
  from p consolidate_prices_order_and_repeat[OF p] show ?thesis by blast
qed

text \<open>
  The claim as stated fails on the URL: of two verified Chedraui items at the same price
  the first one met is kept, so swapping them changes the entry.
\<close>

theorem consolidate_prices_tie_order_counterexample:
  "consolidate_prices [tie_first, tie_second]
     = [(''Chedraui'',
         \<lparr>se_store = ''Chedraui'', se_price = 10, se_url = ''https://www.chedraui.com.mx/a'',
          se_source_api = ''oxylabs'', se_estimated = False\<rparr>)]
   \<and> consolidate_prices [tie_second, tie_first]
     = [(''Chedraui'',
         \<lparr>se_store = ''Chedraui'', se_price = 10, se_url = ''https://www.chedraui.com.mx/b'',
          se_source_api = ''oxylabs'', se_estimated = False\<rparr>)]"
  by code_simp

text \<open>
  Claim C9, as amended.  \<^verbatim>\<open>consolidate_prices\<close> has no plausibility filter of its own:
  every price in its result is the price of an input item it did not skip, filed under
  the same key.  So the prices of the result lie in a range whenever those of the items
  that are not skipped do.
\<close>

theorem consolidate_prices_keeps_input_prices:
  assumes "(k, e) \<in> set (consolidate_prices all_prices)"
    and "\<forall>y \<in> set all_prices. \<forall>q. item_value y = Some q \<longrightarrow> lo \<le> q \<and> q \<le> hi"
  shows "(\<exists>y \<in> set all_prices. item_key y = k \<and> item_value y = Some (se_price e))
       \<and> lo \<le> se_price e \<and> se_price e \<le> hi"
proof -
  from assms(1) have "map_of (consolidate_prices all_prices) k = Some e"
    by (simp add: consolidate_prices_distinct)
  with consolidate_prices_summarises[of all_prices k]
  obtain y where "y \<in> set all_prices" "item_key y = k" "item_value y = Some (se_price e)"
    by (auto simp: summarises_def)
  with assms(2) show ?thesis by blast
qed

theorem consolidate_prices_keeps_input_prices_witness:
  "(''Walmart Mexico'', entry_of verified30 30) \<in> set (consolidate_prices [estimated10, verified30])
   \<and> (\<exists>y \<in> set [estimated10, verified30].
         item_key y = ''Walmart Mexico''
         \<and> item_value y = Some (se_price (entry_of verified30 30)))
   \<and> 5 \<le> se_price (entry_of verified30 30) \<and> se_price (entry_of verified30 30) \<le> 50000"
proof -
  have "consolidate_prices [estimated10, verified30]
          = [(''Walmart Mexico'', entry_of verified30 30)]"
    by code_simp
  then have m: "(''Walmart Mexico'', entry_of verified30 30)
                  \<in> set (consolidate_prices [estimated10, verified30])"
    by simp
  have r: "\<forall>y \<in> set [estimated10, verified30]. \<forall>q. item_value y = Some q \<longrightarrow> 5 \<le> q \<and> q \<le> 50000"
    by (simp add: sample_values)
  from m consolidate_prices_keeps_input_prices[OF m r] show ?thesis by blast
qed

text \<open>
  The claim as stated fails: a price of 3 and a price of 1000000, both outside 5 to 50000,
  come out as they went in.
\<close>

theorem consolidate_prices_out_of_range_counterexample:
  "consolidate_prices [verified3, verified_million]
     = [(''HEB'',
         \<lparr>se_store = ''HEB'', se_price = 3, se_url = ''https://www.heb.com.mx/a'',
          se_source_api = ''oxylabs'', se_estimated = False\<rparr>),
        (''Costco'',
         \<lparr>se_store = ''Costco'', se_price = 1000000, se_url = ''https://www.costco.com.mx/a'',
          se_source_api = ''oxylabs'', se_estimated = False\<rparr>)]
   \<and> (3::real) < 5 \<and> (50000::real) < 1000000"
  by code_simp

text \<open>
  Claim C10, as amended.  An item whose price is missing, None, the number zero (an int, a
  float or False) or a string whose digits and dots do not make a number (the empty
  string among them) leaves every dictionary as it is, so it adds no entry and replaces
  none, and dropping it from the input does not change the result.
\<close>

theorem consolidate_prices_skips_unpriced:
  assumes "pi_price x = None \<or> pi_price x = Some PNone \<or> pi_price x = Some (PInt 0)
         \<or> pi_price x = Some (PFloat 0) \<or> pi_price x = Some (PBool False)
         \<or> (\<exists>s err. pi_price x = Some (PStr s) \<and> float_of_str (digits_and_dots s) = Inl err)"
  shows "consolidate_step stores x = stores
       \<and> consolidate_prices (xs @ x # ys) = consolidate_prices (xs @ ys)"
proof -
  from assms have "item_value x = None"
    by (auto simp: item_value_def item_price_def price_to_float_def)
  then have "consolidate_step s x = s" for s
    by (rule consolidate_step_skip)
  then show ?thesis by (simp add: consolidate_prices_def)
qed

theorem consolidate_prices_skips_unpriced_witness:
  "pi_price verified_unpriced = Some (PInt 0)
   \<and> consolidate_step (consolidate_prices [estimated10]) verified_unpriced
       = consolidate_prices [estimated10]
   \<and> consolidate_prices ([estimated10] @ verified_unpriced # [verified45])
       = consolidate_prices ([estimated10] @ [verified45])"
proof -
  have p: "pi_price verified_unpriced = Some (PInt 0)"
    by (simp add: verified_unpriced_def offer_def)
  then have h: "pi_price verified_unpriced = None \<or> pi_price verified_unpriced = Some PNone
         \<or> pi_price verified_unpriced = Some (PInt 0)
         \<or> pi_price verified_unpriced = Some (PFloat 0)
         \<or> pi_price verified_unpriced = Some (PBool False)
         \<or> (\<exists>s err. pi_price verified_unpriced = Some (PStr s)
                \<and> float_of_str (digits_and_dots s) = Inl err)"
    by simp
  from p consolidate_prices_skips_unpriced[OF h] show ?thesis by blast
qed

text \<open>
  The claim as stated fails for a price given as text: the string "0" is not empty, so it
  passes the test, converts to 0.0 and is stored as the price of the store.
\<close>

theorem consolidate_prices_zero_text_counterexample:
  "pi_price zero_text = Some (PStr ''0'')
   \<and> consolidate_prices [zero_text]
       = [(''Walmart Mexico'',
           \<lparr>se_store = ''Walmart Mexico'', se_price = 0,
            se_url = ''https://www.walmart.com.mx/ip/3'', se_source_api = ''oxylabs'',
            se_estimated = False\<rparr>)]"
  by code_simp

section \<open>Properties of the match score and the multipack detector\<close>


text \<open>The score where both names are non-empty and the search has a keyword.\<close>

lemma score_with_keywords:
  assumes "search_name \<noteq> []" "found_name \<noteq> []" "normalize_product_name search_name \<noteq> []"
    and order: "\<And>ks. set (set_order ks) = set ks"
  shows "calculate_product_match_score set_order search_name found_name =
     (if hd (set_order (normalize_product_name search_name))
           \<in> set (normalize_product_name found_name)
      then min 1 (jaccard_similarity (set (normalize_product_name search_name))
                    (set (normalize_product_name found_name)) + 2 / 10)
      else jaccard_similarity (set (normalize_product_name search_name))
             (set (normalize_product_name found_name)))"
proof -
  have ne: "set_order (normalize_product_name search_name) \<noteq> []"
    using assms(3) order[of "normalize_product_name search_name"] by (metis set_empty)
  have fe: "x \<in> set (normalize_product_name found_name)
              \<Longrightarrow> set_order (normalize_product_name found_name) \<noteq> []" for x
    using order[of "normalize_product_name found_name"] by (metis empty_iff set_empty)
  show ?thesis
    using assms(1-3) ne fe
    by (auto simp: calculate_product_match_score_def Let_def jaccard_similarity_def)
qed

lemma hd_of_singleton_order: "set (set_order [x]) = {x} \<Longrightarrow> hd (set_order [x]) = x"
  by (metis empty_iff hd_in_set insert_not_empty set_empty singletonD)

lemma sample_keywords:
  "normalize_product_name ''coca cola'' = [''coca'', ''cola'']"
  "normalize_product_name ''coca'' = [''coca'']"
  "normalize_product_name ''cola'' = [''cola'']"
  "normalize_product_name ''de la'' = []"
  by code_simp+




text \<open>
  Claim C8.  Whatever order the keyword sets are listed in, there are names \<open>A\<close> and
  \<open>B\<close>, each with a keyword, whose score differs between the two directions.  Both
  directions share the Jaccard similarity, so the difference is the bonus alone.
\<close>

theorem match_score_not_symmetric:
  assumes order: "\<And>ks. set (set_order ks) = set ks"
  shows "\<exists>A B. normalize_product_name A \<noteq> [] \<and> normalize_product_name B \<noteq> []
           \<and> calculate_product_match_score set_order A B
               \<noteq> calculate_product_match_score set_order B A"
proof -
  have h1: "hd (set_order [''coca'']) = ''coca''" and h2: "hd (set_order [''cola'']) = ''cola''"
    using order by (simp_all add: hd_of_singleton_order)
  have j: "jaccard_similarity {''coca'', ''cola''} {''cola''} = 1 / 2"
       "jaccard_similarity {''cola''} {''coca'', ''cola''} = 1 / 2"
       "jaccard_similarity {''coca'', ''cola''} {''coca''} = 1 / 2"
       "jaccard_similarity {''coca''} {''coca'', ''cola''} = 1 / 2"
    by (simp_all add: jaccard_similarity_def card_insert_if)
  have "hd (set_order [''coca'', ''cola'']) \<in> {''coca'', ''cola''}"
    using order[of "[''coca'', ''cola'']"]
    by (metis hd_in_set insert_not_empty list.simps(15) set_empty)
  then consider "hd (set_order [''coca'', ''cola'']) = ''coca''"
    | "hd (set_order [''coca'', ''cola'']) = ''cola''"
    by blast
  then show ?thesis
  proof cases
    case 1
    have "calculate_product_match_score set_order ''cola'' ''coca cola'' = 7 / 10"
      by (simp add: score_with_keywords[OF _ _ _ order] sample_keywords h2 j)
    moreover have "calculate_product_match_score set_order ''coca cola'' ''cola'' = 1 / 2"
      by (simp add: score_with_keywords[OF _ _ _ order] sample_keywords 1 j)
    ultimately show ?thesis
      by (intro exI[of _ "''cola''"] exI[of _ "''coca cola''"]) (simp add: sample_keywords)
  next
    case 2
    have "calculate_product_match_score set_order ''coca'' ''coca cola'' = 7 / 10"
      by (simp add: score_with_keywords[OF _ _ _ order] sample_keywords h1 j)
    moreover have "calculate_product_match_score set_order ''coca cola'' ''coca'' = 1 / 2"
      by (simp add: score_with_keywords[OF _ _ _ order] sample_keywords 2 j)
    ultimately show ?thesis
      by (intro exI[of _ "''coca''"] exI[of _ "''coca cola''"]) (simp add: sample_keywords)
  qed
qed

text \<open>The theorem with sets listed in the order their keywords were given.\<close>

theorem match_score_not_symmetric_witness:
  "(\<forall>ks :: string list. set (remdups ks) = set ks)
   \<and> (\<exists>A B. normalize_product_name A \<noteq> [] \<and> normalize_product_name B \<noteq> []
          \<and> calculate_product_match_score remdups A B
              \<noteq> calculate_product_match_score remdups B A)"
proof -
  have o: "set (remdups ks) = set ks" for ks :: "string list" by simp
  show ?thesis
    by (intro conjI allI) (rule o, rule match_score_not_symmetric[OF o])
qed

text \<open>
  Claim C6.  The multipack detector answers true on "Producto X 6 pack" and false on
  "Producto X 600ml".
\<close>

theorem is_multipack_examples:
  "is_multipack ''Producto X 6 pack'' \<and> \<not> is_multipack ''Producto X 600ml''"
  by code_simp

section \<open>Properties of the endpoint\<close>






section \<open>Properties of the extraction\<close>

lemma in_range_bounds: "(t, p) \<in> set (in_range lo hi title q) \<Longrightarrow> lo \<le> p \<and> p \<le> hi"
  by (auto simp: in_range_def split: if_splits)

lemma priced_match_bounds:
  "(t, p) \<in> set (priced_match threshold lo hi m) \<Longrightarrow> lo \<le> p \<and> p \<le> hi"
  by (auto simp: priced_match_def split: list.splits sum.splits dest: in_range_bounds)

lemma priced_matches_bounds:
  "(t, p) \<in> set (concat (map (priced_match threshold lo hi) ms)) \<Longrightarrow> lo \<le> p \<and> p \<le> hi"
  by (auto dest: priced_match_bounds)

lemma html_match_bounds: "(t, p) \<in> set (html_match m) \<Longrightarrow> 5 \<le> p \<and> p \<le> 50000"
  by (auto simp: html_match_def Let_def split: list.splits sum.splits dest: in_range_bounds)

lemma html_products_bounds: "(t, p) \<in> set (html_products html) \<Longrightarrow> 5 \<le> p \<and> p \<le> 50000"
  by (auto simp: html_products_def dest: html_match_bounds)

lemma collect_until_error_member:
  "x \<in> set (collect_until_error f ys) \<Longrightarrow> \<exists>y \<in> set ys. \<exists>found. f y = Inr found \<and> x \<in> set found"
  by (induction ys) (auto split: sum.splits)

lemma vtex_state_entry_bounds:
  "vtex_state_entry entry = Inr found \<Longrightarrow> (t, p) \<in> set found \<Longrightarrow> 5 \<le> p \<and> p \<le> 50000"
  by (auto simp: vtex_state_entry_def Let_def
        split: pyval.splits if_splits sum.splits dest: in_range_bounds)

lemma vtex_state_products_bounds:
  assumes "(t, p) \<in> set (vtex_state_products html)"
  shows "5 \<le> p \<and> p \<le> 50000"
proof -
  from assms obtain entries where "(t, p) \<in> set (collect_until_error vtex_state_entry entries)"
    by (auto simp: vtex_state_products_def Let_def split: option.splits pyval.splits)
  then obtain entry found where "vtex_state_entry entry = Inr found" "(t, p) \<in> set found"
    by (blast dest: collect_until_error_member)
  then show ?thesis by (rule vtex_state_entry_bounds)
qed

text \<open>The sample pages, each read by its strategy.\<close>

lemma extract_products_samples:
  "extract_products_from_html page_vtex_state = Inr [(PStr ''Leche'', 55 / 2)]"
  "extract_products_from_html page_vtex_render = Inr [(PStr ''Leche Lala 1L'', 2550)]"
  "extract_products_from_html page_embedded_json = Inr [(PStr ''Cereal Zucaritas'', 899 / 10)]"
  "extract_products_from_html page_markup = Inr [(PStr ''Galletas Marias'', 2469 / 2)]"
  "extract_products_from_html page_plain = Inr []"
  by code_simp+

text \<open>
  Claim C3 does not hold of the code.  The JSON-LD strategy and the \<^verbatim>\<open>__NEXT_DATA__\<close>
  strategy append \<^verbatim>\<open>float(price)\<close> with no range test: a JSON-LD product priced
  "1.50" is returned at 1.5, below the bound of 5, and a \<^verbatim>\<open>__NEXT_DATA__\<close> list is
  returned with the prices 80000 and 2, above and below the bound.
\<close>

theorem extract_products_returns_unchecked_prices:
  "extract_products_from_html page_jsonld_cheap = Inr [(PStr ''Chicle'', 3 / 2)]
   \<and> (3 / 2 :: real) < 5
   \<and> extract_products_from_html page_next_data
         = Inr [(PStr ''Agua'', 80000), (PStr ''Jugo'', 2)]
   \<and> (50000 :: real) < 80000"
  by code_simp

text \<open>
  The other strategies do make the test: when the JSON-LD strategy and the
  \<^verbatim>\<open>__NEXT_DATA__\<close> strategy find nothing on a page, every pair returned has a price
  between 5 and 50000.
\<close>

theorem extract_products_bounded_outside_jsonld_and_next_data:
  assumes "extract_products_from_html html = Inr products"
    and "jsonld_products html = Inr []"
    and "next_data_products html = []"
    and "(title, price) \<in> set products"
  shows "5 \<le> price \<and> price \<le> 50000"
proof -
  let ?render = "concat (map (priced_match (Some 10000) 5 50000)
                    (re_findall False vtex_render_pattern html))"
  let ?query = "concat (map (priced_match None 5 5000) (re_findall False vtex_query_pattern html))"
  let ?simple = "concat (map (priced_match (Some 1000) 5 5000)
                    (re_findall False vtex_simple_pattern html))"
  let ?generic = "concat (map (priced_match (Some 10000) 5 50000)
                    (re_findall False generic_pattern html))"
  from assms(1-3) have "products = vtex_state_products html \<or> products = ?render
      \<or> products = ?query \<or> products = ?simple \<or> products = ?generic
      \<or> products = html_products html"
    by (auto simp: extract_products_from_html_def Let_def split: if_splits)
  with assms(4) consider "(title, price) \<in> set (vtex_state_products html)"
    | "(title, price) \<in> set ?render" | "(title, price) \<in> set ?query"
    | "(title, price) \<in> set ?simple" | "(title, price) \<in> set ?generic"
    | "(title, price) \<in> set (html_products html)"
    by blast
  then show ?thesis
  proof cases
    case 1 then show ?thesis by (rule vtex_state_products_bounds)
  next
    case 2 then show ?thesis by (rule priced_matches_bounds)
  next
    case 3 then have "5 \<le> price \<and> price \<le> 5000" by (rule priced_matches_bounds)
    then show ?thesis by simp
  next
    case 4 then have "5 \<le> price \<and> price \<le> 5000" by (rule priced_matches_bounds)
    then show ?thesis by simp
  next
    case 5 then show ?thesis by (rule priced_matches_bounds)
  next
    case 6 then show ?thesis by (rule html_products_bounds)
  qed
qed

text \<open>An exception leaves the function only from the JSON-LD strategy.\<close>

lemma extract_raises_iff:
  "extract_products_from_html html = Inl e \<longleftrightarrow> jsonld_products html = Inl e"
  by (auto simp: extract_products_from_html_def Let_def split: sum.splits if_splits)

text \<open>
  Claim C5 does not hold of the code.  The JSON-LD strategy catches the decoding error
  only, and calls \<^verbatim>\<open>.get\<close> on whatever the block decodes to: a block holding the
  array [1], and a block holding an item list whose item is a URL string rather than an
  object, both make the function raise AttributeError to its caller.
\<close>

theorem extract_products_raises_on_jsonld_shape:
  "extract_products_from_html page_jsonld_array = Inl AttributeError
   \<and> extract_products_from_html page_jsonld_url_item = Inl AttributeError"
  by code_simp

end
